theory Spec2Isabelle
  imports Complex_Main
begin

section \<open>Error taxonomy (providerErrors.ts)\<close>

text \<open>
  The five classifications of \<^verbatim>\<open>ProviderErrorClassification\<close>.
\<close>

datatype ProviderErrorClassification = TEMPORARY | PERMANENT | AUTH | CONFIG | RATE_LIMIT

text \<open>
  Everything the code throws. \<^verbatim>\<open>ProviderError\<close> carries a message, a classification,
  the optional retry hint and the optional cause; \<^verbatim>\<open>Error\<close> is the plain JavaScript
  error (\<^verbatim>\<open>new Error(msg)\<close>, and the \<^verbatim>\<open>TypeError\<close> / \<^verbatim>\<open>SyntaxError\<close> of the runtime),
  which is not an instance of \<^verbatim>\<open>ProviderError\<close>. The numbers the orchestrator only
  stores, compares or passes on (retry hints, scores, the attempt limit) are rationals,
  and its attempt counter is a natural number.
\<close>

datatype thrown =
    ProviderError string ProviderErrorClassification "rat option" "thrown option"
  | Error string

fun isProviderError :: "thrown \<Rightarrow> bool" where
  "isProviderError (ProviderError m c r cs) = True"
| "isProviderError (Error m) = False"

text \<open>The fields \<^verbatim>\<open>message\<close>, \<^verbatim>\<open>classification\<close> and \<^verbatim>\<open>cause\<close> of a thrown value.\<close>

fun err_message :: "thrown \<Rightarrow> string" where
  "err_message (ProviderError m c r cs) = m"
| "err_message (Error m) = m"

fun err_classification :: "thrown \<Rightarrow> ProviderErrorClassification option" where
  "err_classification (ProviderError m c r cs) = Some c"
| "err_classification (Error m) = None"

fun err_cause :: "thrown \<Rightarrow> thrown option" where
  "err_cause (ProviderError m c r cs) = cs"
| "err_cause (Error m) = None"

fun isRetryable :: "ProviderErrorClassification \<Rightarrow> bool" where
  "isRetryable c = (c = TEMPORARY \<or> c = RATE_LIMIT)"

section \<open>Shared adapter helpers (adapters/helpers.ts)\<close>

fun mapStatusToClassification :: "int \<Rightarrow> ProviderErrorClassification" where
  "mapStatusToClassification status =
     (if status = 401 \<or> status = 403 then AUTH
      else if status = 429 then RATE_LIMIT
      else if status \<ge> 500 then TEMPORARY
      else if status \<ge> 400 then PERMANENT
      else TEMPORARY)"

section \<open>Configuration (loadConfig.ts)\<close>

text \<open>
  \<^verbatim>\<open>ProviderConfig\<close> and the part of \<^verbatim>\<open>CallerConfig\<close> the orchestrator reads. The
  \<^verbatim>\<open>providers\<close> object is the list of its entries in the order of \<^verbatim>\<open>Object.entries\<close>
  (declaration order); a key is looked up with \<open>map_of\<close>. The optional records
  \<^verbatim>\<open>defaults\<close> and \<^verbatim>\<open>scores\<close> are optional maps.
\<close>

record ProviderConfig =
  baseUrl :: string
  defaultModel :: string
  capabilities :: "string list"
  defaults :: "(string \<rightharpoonup> string) option"
  scores :: "(string \<rightharpoonup> rat) option"

record RetryConfig =
  maxAttempts :: "rat option"

record CallerConfig =
  providers :: "(string \<times> ProviderConfig) list"
  retry :: "RetryConfig option"

section \<open>Orchestrator data (orchestrator.ts)\<close>

text \<open>
  The two request interfaces share the fields routing reads; they are extensions of one
  base record, so that \<^verbatim>\<open>resolveRoutingSelection\<close> accepts both, as its structural
  parameter type \<^verbatim>\<open>{ provider?: string; model?: string }\<close> does.
\<close>

record RequestBase =
  requestId :: string
  callerTool :: string
  provider :: "string option"
  model :: "string option"

record NormalizedChatRequest = RequestBase +
  messages :: "(string \<times> string) list"
  temperature :: "rat option"
  maxTokens :: "rat option"

datatype EmbedInput = TextInput string | VectorInput "rat list"

record NormalizedEmbedRequest = RequestBase +
  inputs :: "EmbedInput list"

datatype RoutingStrategy = capability_default | caller_override | fallback

record RoutingMetadata =
  capability :: string
  strategy :: RoutingStrategy

text \<open>
  \<^verbatim>\<open>RoutingSelection\<close>. Its \<^verbatim>\<open>model\<close> is declared a string; at run time it is
  \<^verbatim>\<open>undefined\<close> in the one case written out in \<open>resolveRoutingSelection\<close> below.
\<close>

record RoutingSelection =
  providerKey :: string
  sel_model :: "string option"
  sel_strategy :: RoutingStrategy

text \<open>
  A property of an object as the spread \<^verbatim>\<open>...existing\<close> sees it: not an own property,
  or an own property whose value is \<^verbatim>\<open>undefined\<close>, \<^verbatim>\<open>null\<close> or a value.
\<close>

datatype 'a ownProperty = Absent | IsUndefined | IsNull | Present 'a

record ProviderInfo =
  info_name :: "string ownProperty"
  info_model :: "string ownProperty"
  info_routing :: "RoutingMetadata option"

text \<open>
  A payload is \<^verbatim>\<open>unknown\<close> to the orchestrator: either not an object (or falsy), or an
  object with an optional \<^verbatim>\<open>providerInfo\<close> and the rest of its fields, of a type the
  orchestrator never inspects.
\<close>

datatype 'b Payload = NonObject 'b | Object 'b "ProviderInfo option"

record 'p ProviderResponse =
  payload :: 'p
  traceId :: string
  retryAfterMs :: "rat option"
  attempts :: "nat option"

datatype EventType = Delta | Completion

record DeltaFragment =
  d_role :: "string option"
  d_content :: "string option"

record Message =
  role :: string
  content :: string

record Usage =
  inputTokens :: rat
  outputTokens :: rat
  totalTokens :: "rat option"

record CompletionBody =
  message :: Message
  usage :: Usage

record ProviderStreamEvent =
  type :: EventType
  delta :: "DeltaFragment option"
  ev_payload :: "CompletionBody Payload option"
  ev_traceId :: "string option"

text \<open>
  An asynchronous iterable of stream events, read to its end: the events it yields and
  the error that ends it, if one does.
\<close>

type_synonym EventStream = "ProviderStreamEvent list \<times> thrown option"

text \<open>
  A provider adapter. Its methods perform effects (network calls, the queues of a test
  stub), so each takes the state of the world \<open>'s\<close> and returns the new one together with
  the response or the error it throws. \<^verbatim>\<open>chatStream\<close> and \<^verbatim>\<open>embed\<close> are optional
  methods.
\<close>

record ('s, 'b, 'v) ProviderAdapter =
  name :: string
  supports :: "string \<Rightarrow> bool"
  chat :: "NormalizedChatRequest \<Rightarrow> 's \<Rightarrow> (thrown + 'b Payload ProviderResponse) \<times> 's"
  chatStream :: "(NormalizedChatRequest \<Rightarrow> 's \<Rightarrow> EventStream \<times> 's) option"
  embed :: "(NormalizedEmbedRequest \<Rightarrow> 's \<Rightarrow> (thrown + 'v Payload ProviderResponse) \<times> 's) option"

record RoutingContext =
  ctx_provider :: string
  ctx_model :: "string option"
  ctx_capability :: string
  ctx_strategy :: RoutingStrategy

section \<open>Orchestrator functions (orchestrator.ts)\<close>

definition resolveMaxAttempts :: "CallerConfig \<Rightarrow> nat" where
  "resolveMaxAttempts config =
     (case retry config of
        None \<Rightarrow> 2
      | Some r \<Rightarrow>
          (case maxAttempts r of
             None \<Rightarrow> 2
           | Some configured \<Rightarrow> if configured \<ge> 1 then nat \<lfloor>configured\<rfloor> else 2))"

text \<open>
  \<^verbatim>\<open>adapters.find((entry) => entry.name === providerKey)\<close>, then the throw when nothing
  is found.
\<close>

definition getRegisteredAdapter ::
  "string \<Rightarrow> ('s, 'b, 'v) ProviderAdapter list \<Rightarrow> thrown + ('s, 'b, 'v) ProviderAdapter" where
  "getRegisteredAdapter key adapters =
     (case find (\<lambda>entry. name entry = key) adapters of
        None \<Rightarrow> Inl (Error (''Adapter not registered for provider: '' @ key))
      | Some adapter \<Rightarrow> Inr adapter)"

text \<open>
  \<^verbatim>\<open>validateCapability\<close> returns nothing; \<open>None\<close> is the normal return and \<open>Some e\<close> the
  throw. Reading \<^verbatim>\<open>providerConfig.capabilities\<close> of an undefined configuration is a
  \<^verbatim>\<open>TypeError\<close> of the runtime.
\<close>

definition validateCapability :: "ProviderConfig option \<Rightarrow> string \<Rightarrow> string \<Rightarrow> thrown option" where
  "validateCapability providerConfig cap key =
     (case providerConfig of
        None \<Rightarrow> Some (Error ''TypeError: Cannot read properties of undefined'')
      | Some pc \<Rightarrow>
          if cap \<notin> set (capabilities pc)
          then Some (Error (''Provider '' @ key @ '' does not declare capability: '' @ cap))
          else None)"

definition selectAdapter ::
  "string \<Rightarrow> ProviderConfig option \<Rightarrow> ('s, 'b, 'v) ProviderAdapter list \<Rightarrow> string
     \<Rightarrow> thrown + ('s, 'b, 'v) ProviderAdapter" where
  "selectAdapter key providerConfig adapters cap =
     (case getRegisteredAdapter key adapters of
        Inl e \<Rightarrow> Inl e
      | Inr adapter \<Rightarrow>
          if \<not> supports adapter cap
          then Inl (Error (''Adapter '' @ key @ '' does not support '' @ cap @ '' capability''))
          else (case validateCapability providerConfig cap key of
                  Some e \<Rightarrow> Inl e
                | None \<Rightarrow> Inr adapter))"

text \<open>
  \<^verbatim>\<open>modelOverride ?? request.model ?? providerConfig.defaultModel\<close>; the request keeps
  its other fields.
\<close>

definition normalizeChatRequest ::
  "NormalizedChatRequest \<Rightarrow> string \<Rightarrow> ProviderConfig \<Rightarrow> string option \<Rightarrow> NormalizedChatRequest" where
  "normalizeChatRequest request key providerConfig modelOverride =
     (let m = (case modelOverride of
                 Some x \<Rightarrow> x
               | None \<Rightarrow> (case model request of Some y \<Rightarrow> y | None \<Rightarrow> defaultModel providerConfig))
      in request\<lparr>provider := Some key, model := Some m\<rparr>)"

definition normalizeEmbedRequest ::
  "NormalizedEmbedRequest \<Rightarrow> string \<Rightarrow> ProviderConfig \<Rightarrow> string option \<Rightarrow> NormalizedEmbedRequest" where
  "normalizeEmbedRequest request key providerConfig modelOverride =
     (let m = (case modelOverride of
                 Some x \<Rightarrow> x
               | None \<Rightarrow> (case model request of Some y \<Rightarrow> y | None \<Rightarrow> defaultModel providerConfig))
      in request\<lparr>provider := Some key, model := Some m\<rparr>)"

text \<open>The optional chaining \<^verbatim>\<open>config.defaults?.[capability]\<close> and \<^verbatim>\<open>config.scores?.[capability]\<close>.\<close>

definition defaultFor :: "ProviderConfig \<Rightarrow> string \<Rightarrow> string option" where
  "defaultFor config cap = (case defaults config of None \<Rightarrow> None | Some d \<Rightarrow> d cap)"

definition scoreFor :: "ProviderConfig \<Rightarrow> string \<Rightarrow> rat option" where
  "scoreFor config cap = (case scores config of None \<Rightarrow> None | Some sc \<Rightarrow> sc cap)"

text \<open>The local \<^verbatim>\<open>best\<close> of \<^verbatim>\<open>resolveRoutingSelection\<close>.\<close>

record Best =
  best_key :: string
  best_index :: nat
  best_score :: rat
  best_model :: string
  best_strategy :: RoutingStrategy

text \<open>
  The body of \<^verbatim>\<open>entries.forEach(([key, config], index) => ...)\<close>: one step per entry,
  with the running index and the running \<^verbatim>\<open>best\<close>. \<^verbatim>\<open>Boolean(s)\<close> of an optional string
  is true when the string is present and not empty.
\<close>

fun forEachEntry :: "string \<Rightarrow> (string \<times> ProviderConfig) list \<Rightarrow> nat \<Rightarrow> Best option \<Rightarrow> Best option" where
  "forEachEntry cap [] index best = best"
| "forEachEntry cap ((key, config) # rest) index best =
     (if cap \<notin> set (capabilities config) then forEachEntry cap rest (index + 1) best
      else
        let hasDefault = (case defaultFor config cap of None \<Rightarrow> False | Some d \<Rightarrow> d \<noteq> []);
            baseScore = (case scoreFor config cap of None \<Rightarrow> 0 | Some x \<Rightarrow> x);
            score = baseScore + (if hasDefault then 50 else 0);
            m = (case defaultFor config cap of None \<Rightarrow> defaultModel config | Some d \<Rightarrow> d);
            strat = (if hasDefault then capability_default else fallback)
        in forEachEntry cap rest (index + 1)
             (case best of
                None \<Rightarrow>
                  Some \<lparr>best_key = key, best_index = index, best_score = score,
                        best_model = m, best_strategy = strat\<rparr>
              | Some b \<Rightarrow>
                  if score > best_score b \<or> (score = best_score b \<and> index < best_index b)
                  then Some \<lparr>best_key = key, best_index = index, best_score = score,
                             best_model = m, best_strategy = strat\<rparr>
                  else Some b))"

text \<open>
  The names every plain object inherits from \<^verbatim>\<open>Object.prototype\<close>. A read
  \<^verbatim>\<open>providers[key]\<close> with one of them as key, when the object has no own property of
  that name, yields a function or the prototype itself: a truthy value that has none of
  the properties of a provider configuration.
\<close>

definition objectPrototypeKeys :: "string list" where
  "objectPrototypeKeys =
     [''constructor'', ''toString'', ''toLocaleString'', ''valueOf'', ''hasOwnProperty'',
      ''isPrototypeOf'', ''propertyIsEnumerable'', ''__proto__'', ''__defineGetter__'',
      ''__defineSetter__'', ''__lookupGetter__'', ''__lookupSetter__'']"

text \<open>
  \<^verbatim>\<open>if (request.provider)\<close> holds for a present, non-empty string. When the provider
  named is an inherited property, \<^verbatim>\<open>providerConfig\<close> is truthy and both
  \<^verbatim>\<open>providerConfig.defaults?.[capability]\<close> and \<^verbatim>\<open>providerConfig.defaultModel\<close> are
  \<^verbatim>\<open>undefined\<close>, so the model is the request's own, if it has one.
\<close>

definition resolveRoutingSelection ::
  "string \<Rightarrow> 'a RequestBase_scheme \<Rightarrow> (string \<times> ProviderConfig) list \<Rightarrow> thrown + RoutingSelection" where
  "resolveRoutingSelection cap request provs =
     (case (case provider request of None \<Rightarrow> None | Some p \<Rightarrow> if p = [] then None else Some p) of
        Some p \<Rightarrow>
          (case map_of provs p of
             None \<Rightarrow>
               if p \<in> set objectPrototypeKeys
               then Inr \<lparr>providerKey = p, sel_model = model request, sel_strategy = caller_override\<rparr>
               else Inl (Error (''Unknown provider: '' @ p))
           | Some providerConfig \<Rightarrow>
               let m = (case model request of
                          Some x \<Rightarrow> x
                        | None \<Rightarrow> (case defaultFor providerConfig cap of
                                     Some d \<Rightarrow> d
                                   | None \<Rightarrow> defaultModel providerConfig))
               in Inr \<lparr>providerKey = p, sel_model = Some m, sel_strategy = caller_override\<rparr>)
      | None \<Rightarrow>
          (case provs of
             [] \<Rightarrow> Inl (Error ''No providers configured'')
           | (fallbackKey, fallbackConfig) # rest \<Rightarrow>
               (case forEachEntry cap provs 0 None of
                  Some b \<Rightarrow>
                    Inr \<lparr>providerKey = best_key b, sel_model = Some (best_model b),
                         sel_strategy = best_strategy b\<rparr>
                | None \<Rightarrow>
                    Inr \<lparr>providerKey = fallbackKey, sel_model = Some (defaultModel fallbackConfig),
                         sel_strategy = fallback\<rparr>)))"

text \<open>
  The conversion of a number to text in a template literal, for the non-negative integers
  an attempt count can be: its decimal digits (JavaScript prints integers below
  \<open>10\<^sup>2\<^sup>1\<close> so).
\<close>

definition digitChar :: "nat \<Rightarrow> char" where
  "digitChar d = ''0123456789'' ! d"

function numberToString :: "nat \<Rightarrow> string" where
  "numberToString n =
     (if n < 10 then [digitChar n] else numberToString (n div 10) @ [digitChar (n mod 10)])"
  by pat_completeness auto
termination
  by (relation "measure (\<lambda>n. n)") auto

declare numberToString.simps [simp del]

text \<open>
  The statement after the loop of \<^verbatim>\<open>executeWithRetry\<close>: a new \<^verbatim>\<open>ProviderError\<close> with
  the classification of the last provider error (\<^verbatim>\<open>TEMPORARY\<close> when there is none) and
  that error as its cause.
\<close>

definition afterLoop :: "string \<Rightarrow> nat \<Rightarrow> thrown option \<Rightarrow> thrown" where
  "afterLoop key maxAtt lastProviderError =
     ProviderError (''Provider '' @ key @ '' failed after '' @ numberToString maxAtt @ '' attempts'')
       (case lastProviderError of
          None \<Rightarrow> TEMPORARY
        | Some e \<Rightarrow> (case err_classification e of None \<Rightarrow> TEMPORARY | Some c \<Rightarrow> c))
       None lastProviderError"

text \<open>
  The \<^verbatim>\<open>while (attempt < maxAttempts)\<close> loop of \<^verbatim>\<open>executeWithRetry\<close>, with its locals
  \<^verbatim>\<open>attempt\<close> and \<^verbatim>\<open>lastProviderError\<close> as arguments. The operation is a call of an
  adapter method: it takes the state of the world and returns the new one. \<^verbatim>\<open>continue\<close>
  is the recursive call, \<^verbatim>\<open>break\<close> and the end of the loop lead to \<open>afterLoop\<close>.
\<close>

function retryLoop ::
  "('s \<Rightarrow> (thrown + 'r) \<times> 's) \<Rightarrow> string \<Rightarrow> nat \<Rightarrow> nat \<Rightarrow> thrown option \<Rightarrow> 's
     \<Rightarrow> (thrown + 'r \<times> nat) \<times> 's" where
  "retryLoop operation key maxAtt attempt lastProviderError s =
     (if attempt < maxAtt then
        (case operation s of
           (Inr result, s') \<Rightarrow> (Inr (result, attempt + 1), s')
         | (Inl (ProviderError m c r cs), s') \<Rightarrow>
             if isRetryable c then
               (if attempt + 1 < maxAtt
                then retryLoop operation key maxAtt (attempt + 1) (Some (ProviderError m c r cs)) s'
                else (Inl (afterLoop key maxAtt (Some (ProviderError m c r cs))), s'))
             else (Inl (ProviderError m c r cs), s')
         | (Inl (Error m), s') \<Rightarrow> (Inl (Error m), s'))
      else (Inl (afterLoop key maxAtt lastProviderError), s))"
  by pat_completeness auto
termination
  by (relation "measure (\<lambda>(operation, key, maxAtt, attempt, lastProviderError, s). maxAtt - attempt)") auto

declare retryLoop.simps [simp del]

definition executeWithRetry ::
  "('s \<Rightarrow> (thrown + 'r) \<times> 's) \<Rightarrow> string \<Rightarrow> nat \<Rightarrow> 's \<Rightarrow> (thrown + 'r \<times> nat) \<times> 's" where
  "executeWithRetry operation key maxAtt s = retryLoop operation key maxAtt 0 None s"

text \<open>
  \<^verbatim>\<open>attachRoutingMetadata\<close>: a payload that is not an object is returned as it is. In an
  object, the new \<^verbatim>\<open>providerInfo\<close> is written as \<^verbatim>\<open>name\<close>, \<^verbatim>\<open>model\<close>, then the spread
  \<^verbatim>\<open>...existing\<close>, then \<^verbatim>\<open>routing\<close>: an own \<^verbatim>\<open>name\<close> or \<^verbatim>\<open>model\<close> of the existing
  \<^verbatim>\<open>providerInfo\<close> overwrites the one computed with \<^verbatim>\<open>??\<close>, also when its value is
  \<^verbatim>\<open>undefined\<close> or \<^verbatim>\<open>null\<close>; only a property that is absent gets the routed value; and
  \<^verbatim>\<open>routing\<close> is always overwritten.
\<close>

fun attachRoutingMetadata :: "'b Payload \<Rightarrow> RoutingContext \<Rightarrow> 'b Payload" where
  "attachRoutingMetadata (NonObject v) ctx = NonObject v"
| "attachRoutingMetadata (Object rest pinfo) ctx =
     (let existing = (case pinfo of
                        None \<Rightarrow> \<lparr>info_name = Absent, info_model = Absent, info_routing = None\<rparr>
                      | Some e \<Rightarrow> e)
      in Object rest
           (Some \<lparr>info_name = (case info_name existing of
                                 Absent \<Rightarrow> Present (ctx_provider ctx)
                               | own \<Rightarrow> own),
                  info_model = (case info_model existing of
                                  Absent \<Rightarrow> (case ctx_model ctx of
                                               Some m \<Rightarrow> Present m
                                             | None \<Rightarrow> IsUndefined)
                                | own \<Rightarrow> own),
                  info_routing = Some \<lparr>capability = ctx_capability ctx,
                                       strategy = ctx_strategy ctx\<rparr>\<rparr>))"

definition attachRoutingToStream :: "EventStream \<Rightarrow> RoutingContext \<Rightarrow> EventStream" where
  "attachRoutingToStream stream ctx =
     (map (\<lambda>event. case ev_payload event of
                      Some p \<Rightarrow> event\<lparr>ev_payload := Some (attachRoutingMetadata p ctx)\<rparr>
                    | None \<Rightarrow> event)
          (fst stream),
      snd stream)"

text \<open>
  The three dispatch methods of \<^verbatim>\<open>createOrchestrator\<close>. Each returns the response, or
  the error it throws, and the state of the world after the adapter calls it made.
  After \<^verbatim>\<open>selectAdapter\<close> has returned, the provider configuration is defined
  (\<^verbatim>\<open>validateCapability\<close> has read it).
\<close>

definition dispatchChat ::
  "CallerConfig \<Rightarrow> ('s, 'b, 'v) ProviderAdapter list \<Rightarrow> NormalizedChatRequest \<Rightarrow> 's
     \<Rightarrow> (thrown + 'b Payload ProviderResponse) \<times> 's" where
  "dispatchChat config adapters request s =
     (let maxAtt = resolveMaxAttempts config in
      case resolveRoutingSelection ''chat'' request (providers config) of
        Inl e \<Rightarrow> (Inl e, s)
      | Inr routing \<Rightarrow>
          let providerConfig = map_of (providers config) (providerKey routing) in
          (case selectAdapter (providerKey routing) providerConfig adapters ''chat'' of
             Inl e \<Rightarrow> (Inl e, s)
           | Inr adapter \<Rightarrow>
               (case providerConfig of
                  None \<Rightarrow> (Inl (Error ''TypeError: Cannot read properties of undefined''), s)
                | Some pc \<Rightarrow>
                    let normalizedRequest =
                          normalizeChatRequest request (providerKey routing) pc (sel_model routing)
                    in (case executeWithRetry (chat adapter normalizedRequest) (providerKey routing) maxAtt s of
                          (Inl e, s') \<Rightarrow> (Inl e, s')
                        | (Inr (result, att), s') \<Rightarrow>
                            let resolvedModel = (case model normalizedRequest of
                                                   Some m \<Rightarrow> Some m
                                                 | None \<Rightarrow> sel_model routing);
                                pl = attachRoutingMetadata (payload result)
                                       \<lparr>ctx_provider = providerKey routing, ctx_model = resolvedModel,
                                        ctx_capability = ''chat'', ctx_strategy = sel_strategy routing\<rparr>
                            in (Inr (result\<lparr>payload := pl, attempts := Some att\<rparr>), s')))))"

definition dispatchChatStream ::
  "CallerConfig \<Rightarrow> ('s, 'b, 'v) ProviderAdapter list \<Rightarrow> NormalizedChatRequest \<Rightarrow> 's
     \<Rightarrow> (thrown + EventStream) \<times> 's" where
  "dispatchChatStream config adapters request s =
     (case resolveRoutingSelection ''chatStream'' request (providers config) of
        Inl e \<Rightarrow> (Inl e, s)
      | Inr routing \<Rightarrow>
          let providerConfig = map_of (providers config) (providerKey routing) in
          (case selectAdapter (providerKey routing) providerConfig adapters ''chat'' of
             Inl e \<Rightarrow> (Inl e, s)
           | Inr adapter \<Rightarrow>
               (case chatStream adapter of
                  None \<Rightarrow>
                    (Inl (Error (''Adapter '' @ providerKey routing @ '' does not support chat streaming'')), s)
                | Some adapterChatStream \<Rightarrow>
                    (case providerConfig of
                       None \<Rightarrow> (Inl (Error ''TypeError: Cannot read properties of undefined''), s)
                     | Some pc \<Rightarrow>
                         let normalizedRequest =
                               normalizeChatRequest request (providerKey routing) pc (sel_model routing);
                             (stream, s') = adapterChatStream normalizedRequest s
                         in (Inr (attachRoutingToStream stream
                                    \<lparr>ctx_provider = providerKey routing,
                                     ctx_model = (case model normalizedRequest of
                                                    Some m \<Rightarrow> Some m
                                                  | None \<Rightarrow> sel_model routing),
                                     ctx_capability = ''chatStream'',
                                     ctx_strategy = sel_strategy routing\<rparr>), s')))))"

definition dispatchEmbed ::
  "CallerConfig \<Rightarrow> ('s, 'b, 'v) ProviderAdapter list \<Rightarrow> NormalizedEmbedRequest \<Rightarrow> 's
     \<Rightarrow> (thrown + 'v Payload ProviderResponse) \<times> 's" where
  "dispatchEmbed config adapters request s =
     (case resolveRoutingSelection ''embed'' request (providers config) of
        Inl e \<Rightarrow> (Inl e, s)
      | Inr routing \<Rightarrow>
          let providerConfig = map_of (providers config) (providerKey routing) in
          (case selectAdapter (providerKey routing) providerConfig adapters ''embed'' of
             Inl e \<Rightarrow> (Inl e, s)
           | Inr adapter \<Rightarrow>
               (case embed adapter of
                  None \<Rightarrow>
                    (Inl (Error (''Adapter '' @ providerKey routing @ '' does not support embed capability'')), s)
                | Some adapterEmbed \<Rightarrow>
                    (case providerConfig of
                       None \<Rightarrow> (Inl (Error ''TypeError: Cannot read properties of undefined''), s)
                     | Some pc \<Rightarrow>
                         let normalizedRequest =
                               normalizeEmbedRequest request (providerKey routing) pc (sel_model routing)
                         in (case adapterEmbed normalizedRequest s of
                               (Inl e, s') \<Rightarrow> (Inl e, s')
                             | (Inr response, s') \<Rightarrow>
                                 let resolvedModel = (case model normalizedRequest of
                                                        Some m \<Rightarrow> Some m
                                                      | None \<Rightarrow> sel_model routing);
                                     pl = attachRoutingMetadata (payload response)
                                            \<lparr>ctx_provider = providerKey routing, ctx_model = resolvedModel,
                                             ctx_capability = ''embed'', ctx_strategy = sel_strategy routing\<rparr>
                                 in (Inr (response\<lparr>payload := pl, attempts := Some 1\<rparr>), s'))))))"

section \<open>JavaScript values and built-ins\<close>

text \<open>
  A JavaScript number: a finite double, which is a rational number, one of the two
  infinities, or \<^verbatim>\<open>NaN\<close>.
\<close>

datatype number = Finite rat | PosInfinity | NegInfinity | NaN

text \<open>
  The values \<^verbatim>\<open>JSON.parse\<close> returns (a numeral too large for a double parses to an
  infinity). An object is the list of its own properties, with distinct keys. \<open>None\<close> of
  \<open>json option\<close> is \<^verbatim>\<open>undefined\<close>. Strings are lists of code units below 256.
\<close>

datatype json =
    JNull
  | JBool bool
  | JNumber number
  | JString string
  | JArray "json list"
  | JObject "(string \<times> json) list"

text \<open>
  A property read \<^verbatim>\<open>v.key\<close> on a value that is neither \<^verbatim>\<open>null\<close> nor \<^verbatim>\<open>undefined\<close>,
  for the keys the adapters read (none of them is a built-in property of strings, arrays,
  numbers or booleans): the property of an object, \<^verbatim>\<open>undefined\<close> on everything else.
  On \<^verbatim>\<open>null\<close> the read throws; each function below writes that throw out where the source
  can reach it.
\<close>

fun getProp :: "json \<Rightarrow> string \<Rightarrow> json option" where
  "getProp (JObject props) key = map_of props key"
| "getProp v key = None"

text \<open>Truthiness of a value that may be \<^verbatim>\<open>undefined\<close>.\<close>

fun truthy :: "json option \<Rightarrow> bool" where
  "truthy None = False"
| "truthy (Some JNull) = False"
| "truthy (Some (JBool b)) = b"
| "truthy (Some (JNumber n)) = (n \<noteq> Finite 0 \<and> n \<noteq> NaN)"
| "truthy (Some (JString s)) = (s \<noteq> [])"
| "truthy (Some (JArray xs)) = True"
| "truthy (Some (JObject props)) = True"

text \<open>
  The built-ins of the runtime the adapters call, taken as parameters: \<^verbatim>\<open>JSON.parse\<close>
  (the text's value, or the \<^verbatim>\<open>SyntaxError\<close> it throws), the conversion \<^verbatim>\<open>Number(s)\<close> of
  a string, and the sum \<^verbatim>\<open>x + y\<close> of two finite numbers as doubles add: the double
  nearest to the exact sum, or an infinity when the sum overflows.
\<close>

record Runtime =
  JSON_parse :: "string \<Rightarrow> thrown + json"
  Number_of_string :: "string \<Rightarrow> number"
  Number_add :: "rat \<Rightarrow> rat \<Rightarrow> number"

fun Number_isFinite :: "number \<Rightarrow> bool" where
  "Number_isFinite (Finite x) = True"
| "Number_isFinite v = False"

fun Number_isNaN :: "number \<Rightarrow> bool" where
  "Number_isNaN NaN = True"
| "Number_isNaN v = False"

text \<open>The rational a finite number is.\<close>

fun finiteValue :: "number \<Rightarrow> rat option" where
  "finiteValue (Finite x) = Some x"
| "finiteValue v = None"

text \<open>
  \<^verbatim>\<open>Math.round\<close> of a finite number: the nearest integer, a tie going up. The result
  is a double whenever the argument is.
\<close>

definition Math_round :: "rat \<Rightarrow> rat" where
  "Math_round x = of_int \<lfloor>x + 1 / 2\<rfloor>"

text \<open>The white space \<^verbatim>\<open>trim\<close> and \<^verbatim>\<open>trimStart\<close> remove, among the code units below 256.\<close>

definition isWhiteSpace :: "char \<Rightarrow> bool" where
  "isWhiteSpace c = (c \<in> {CHR 0x09, CHR 0x0A, CHR 0x0B, CHR 0x0C, CHR 0x0D, CHR 0x20, CHR 0xA0})"

definition trimStart :: "string \<Rightarrow> string" where
  "trimStart str = dropWhile isWhiteSpace str"

definition trim :: "string \<Rightarrow> string" where
  "trim str = rev (dropWhile isWhiteSpace (rev (dropWhile isWhiteSpace str)))"

text \<open>\<^verbatim>\<open>str.split(sep)\<close> for a one-character separator, and \<^verbatim>\<open>parts.join(sep)\<close>.\<close>

fun split :: "string \<Rightarrow> char \<Rightarrow> string list" where
  "split [] sep = [[]]"
| "split (c # cs) sep =
     (if c = sep then [] # split cs sep
      else (case split cs sep of
              [] \<Rightarrow> [[c]]
            | part # parts \<Rightarrow> (c # part) # parts))"

fun join :: "string list \<Rightarrow> string \<Rightarrow> string" where
  "join [] sep = []"
| "join [part] sep = part"
| "join (part # parts) sep = part @ sep @ join parts sep"

definition startsWith :: "string \<Rightarrow> string \<Rightarrow> bool" where
  "startsWith str pre = (take (length pre) str = pre)"

section \<open>OpenAI-style adapter: usage and streaming (adapters/openaiAdapter.ts)\<close>

text \<open>
  \<^verbatim>\<open>extractDataPayload\<close>. The source iterable is typed \<^verbatim>\<open>AsyncIterable<string>\<close>, so a
  chunk is a string and the \<^verbatim>\<open>typeof\<close> guard never fires.
\<close>

definition extractDataPayload :: "string \<Rightarrow> string option" where
  "extractDataPayload chunk =
     (let lines = split chunk CHR 0x0A;
          dataLines = map (\<lambda>line. trimStart (drop 5 line))
                          (filter (\<lambda>line. startsWith line ''data:'') lines)
      in if length dataLines = 0 then None
         else Some (trim (join dataLines [CHR 0x0A])))"

text \<open>
  \<^verbatim>\<open>toNumber\<close> returns a finite number or \<^verbatim>\<open>undefined\<close>; \<^verbatim>\<open>clampNonNegative\<close> returns a
  finite number. Both results are given as the rational they are.
\<close>

definition toNumber :: "Runtime \<Rightarrow> json option \<Rightarrow> rat option" where
  "toNumber rt v =
     (case v of
        Some (JNumber n) \<Rightarrow> if Number_isFinite n then finiteValue n else None
      | Some (JString str) \<Rightarrow>
          if length (trim str) > 0
          then (let numeric = Number_of_string rt str
                in if \<not> Number_isNaN numeric \<and> Number_isFinite numeric
                   then finiteValue numeric else None)
          else None
      | _ \<Rightarrow> None)"

definition clampNonNegative :: "number \<Rightarrow> rat" where
  "clampNonNegative v =
     (if \<not> Number_isFinite v then 0
      else (case finiteValue v of
              None \<Rightarrow> 0
            | Some x \<Rightarrow> if x \<le> 0 then 0 else Math_round x))"

text \<open>
  The locals \<^verbatim>\<open>base\<close>, \<^verbatim>\<open>input\<close>, \<^verbatim>\<open>output\<close> and \<^verbatim>\<open>total\<close> of
  \<^verbatim>\<open>normalizeChatUsage\<close>. \<^verbatim>\<open>typeof raw === 'object'\<close> holds for objects and arrays.
  \<^verbatim>\<open>input\<close> and \<^verbatim>\<open>output\<close> are finite; their sum \<^verbatim>\<open>input + output\<close> is the sum of
  doubles, which may be rounded and may be infinite.
\<close>

definition usageBase :: "json option \<Rightarrow> json" where
  "usageBase raw =
     (case raw of
        Some (JObject props) \<Rightarrow> JObject props
      | Some (JArray xs) \<Rightarrow> JArray xs
      | _ \<Rightarrow> JObject [])"

definition usageInput :: "Runtime \<Rightarrow> json \<Rightarrow> rat" where
  "usageInput rt base =
     (case toNumber rt (getProp base ''prompt_tokens'') of
        Some x \<Rightarrow> x
      | None \<Rightarrow> (case toNumber rt (getProp base ''input_tokens'') of
                   Some y \<Rightarrow> y
                 | None \<Rightarrow> 0))"

definition usageOutput :: "Runtime \<Rightarrow> json \<Rightarrow> rat" where
  "usageOutput rt base =
     (case toNumber rt (getProp base ''completion_tokens'') of
        Some x \<Rightarrow> x
      | None \<Rightarrow> (case toNumber rt (getProp base ''output_tokens'') of
                   Some y \<Rightarrow> y
                 | None \<Rightarrow> 0))"

definition usageTotal :: "Runtime \<Rightarrow> json \<Rightarrow> rat option" where
  "usageTotal rt base = toNumber rt (getProp base ''total_tokens'')"

definition normalizeChatUsage :: "Runtime \<Rightarrow> json option \<Rightarrow> Usage" where
  "normalizeChatUsage rt raw =
     (let base = usageBase raw;
          input = usageInput rt base;
          output = usageOutput rt base;
          total = usageTotal rt base;
          derivedTotal = (case total of
                            Some t \<Rightarrow> Some (Finite t)
                          | None \<Rightarrow>
                              if Number_isFinite (Finite input) \<and> Number_isFinite (Finite output)
                              then Some (Number_add rt input output) else None)
      in \<lparr>inputTokens = clampNonNegative (Finite input),
          outputTokens = clampNonNegative (Finite output),
          totalTokens = (case derivedTotal of
                           None \<Rightarrow> None
                         | Some d \<Rightarrow> Some (clampNonNegative d))\<rparr>)"

text \<open>The locals of \<^verbatim>\<open>mapChatCompletionsStream\<close> that live across chunks.\<close>

record StreamState =
  accumulatedContent :: string
  cur_role :: "string option"
  cur_traceId :: "string option"
  usageRaw :: "json option"

text \<open>The test \<^verbatim>\<open>choice.finish_reason === 'stop'\<close> on a choice that is not \<^verbatim>\<open>null\<close>.\<close>

definition finishedWithStop :: "json \<Rightarrow> bool" where
  "finishedWithStop choice = (getProp choice ''finish_reason'' = Some (JString ''stop''))"

text \<open>\<^verbatim>\<open>Array.isArray(parsed.choices) ? parsed.choices : []\<close>.\<close>

definition choicesOf :: "json \<Rightarrow> json list" where
  "choicesOf parsed =
     (case getProp parsed ''choices'' of
        Some (JArray xs) \<Rightarrow> xs
      | _ \<Rightarrow> [])"

text \<open>
  The block \<^verbatim>\<open>if (choice.delta) { ... }\<close> for a truthy delta \<open>d\<close>: the new locals, and
  the delta event when its role or its content is a non-empty string.
\<close>

definition deltaStep :: "StreamState \<Rightarrow> json \<Rightarrow> ProviderStreamEvent list \<times> StreamState" where
  "deltaStep st d =
     (let (r, st1) = (case getProp d ''role'' of
                        Some (JString x) \<Rightarrow> (Some x, st\<lparr>cur_role := Some x\<rparr>)
                      | _ \<Rightarrow> (None, st));
          (c, st2) = (case getProp d ''content'' of
                        Some (JString x) \<Rightarrow>
                          (Some x, st1\<lparr>accumulatedContent := accumulatedContent st1 @ x\<rparr>)
                      | _ \<Rightarrow> (None, st1));
          deltaEvent = \<lparr>type = Delta,
                        delta = Some \<lparr>d_role = r, d_content = c\<rparr>,
                        ev_payload = None,
                        ev_traceId = cur_traceId st\<rparr>
      in if (case r of Some x \<Rightarrow> x \<noteq> [] | None \<Rightarrow> False)
            \<or> (case c of Some x \<Rightarrow> x \<noteq> [] | None \<Rightarrow> False)
         then ([deltaEvent], st2) else ([], st2))"

text \<open>
  The event of the block \<^verbatim>\<open>if (choice.finish_reason === 'stop') { yield ... }\<close>. Its
  \<^verbatim>\<open>providerInfo\<close> is the literal \<^verbatim>\<open>{ name: providerName, model }\<close>: \<^verbatim>\<open>model\<close> is an own
  property, \<^verbatim>\<open>undefined\<close> when the parameter is.
\<close>

definition completionEvent :: "Runtime \<Rightarrow> string \<Rightarrow> string option \<Rightarrow> StreamState \<Rightarrow> ProviderStreamEvent" where
  "completionEvent rt providerName mdl st =
     \<lparr>type = Completion,
      delta = None,
      ev_payload =
        Some (Object
                \<lparr>message = \<lparr>role = (case cur_role st of Some x \<Rightarrow> x | None \<Rightarrow> ''assistant''),
                             content = accumulatedContent st\<rparr>,
                 usage = normalizeChatUsage rt (usageRaw st)\<rparr>
                (Some \<lparr>info_name = Present providerName,
                       info_model = (case mdl of None \<Rightarrow> IsUndefined | Some m \<Rightarrow> Present m),
                       info_routing = None\<rparr>)),
      ev_traceId = cur_traceId st\<rparr>"

text \<open>
  The body of \<^verbatim>\<open>for (const choice of choices)\<close> for one choice: the events it yields
  and the new locals, or the \<^verbatim>\<open>TypeError\<close> of reading \<^verbatim>\<open>choice.delta\<close> on \<^verbatim>\<open>null\<close>.
\<close>

definition choiceStep ::
  "Runtime \<Rightarrow> string \<Rightarrow> string option \<Rightarrow> StreamState \<Rightarrow> json
     \<Rightarrow> thrown + ProviderStreamEvent list \<times> StreamState" where
  "choiceStep rt providerName mdl st choice =
     (if choice = JNull then Inl (Error ''TypeError: Cannot read properties of null'')
      else
        let (deltaEvents, st2) =
              (case getProp choice ''delta'' of
                 None \<Rightarrow> ([], st)
               | Some d \<Rightarrow> if truthy (Some d) then deltaStep st d else ([], st))
        in if finishedWithStop choice
           then Inr (deltaEvents @ [completionEvent rt providerName mdl st2], st2)
           else Inr (deltaEvents, st2))"

text \<open>
  The loop over the choices of one chunk: the events yielded, and the locals at its end
  or the error that ended it. Events yielded before a throw stay yielded.
\<close>

fun choicesLoop ::
  "Runtime \<Rightarrow> string \<Rightarrow> string option \<Rightarrow> StreamState \<Rightarrow> json list
     \<Rightarrow> ProviderStreamEvent list \<times> (thrown + StreamState)" where
  "choicesLoop rt providerName mdl st [] = ([], Inr st)"
| "choicesLoop rt providerName mdl st (choice # rest) =
     (case choiceStep rt providerName mdl st choice of
        Inl e \<Rightarrow> ([], Inl e)
      | Inr (events, st') \<Rightarrow>
          (case choicesLoop rt providerName mdl st' rest of
             (events', r) \<Rightarrow> (events @ events', r)))"

text \<open>
  The two statements of the loop body that read \<^verbatim>\<open>parsed.id\<close> and \<^verbatim>\<open>parsed.usage\<close> of
  a parsed payload that is not \<^verbatim>\<open>null\<close>.
\<close>

definition headerStep :: "StreamState \<Rightarrow> json \<Rightarrow> StreamState" where
  "headerStep st parsed =
     (let st1 = (case getProp parsed ''id'' of
                   Some (JString x) \<Rightarrow> st\<lparr>cur_traceId := Some x\<rparr>
                 | _ \<Rightarrow> st)
      in if truthy (getProp parsed ''usage'')
         then st1\<lparr>usageRaw := getProp parsed ''usage''\<rparr> else st1)"

text \<open>
  How the \<^verbatim>\<open>for await\<close> loop over the chunks ends: the source is exhausted (with the
  locals as they are then), the loop breaks at the sentinel, or an error is thrown.
\<close>

datatype LoopExit = Exhausted StreamState | Broke | Threw thrown

fun chunkLoop ::
  "Runtime \<Rightarrow> string \<Rightarrow> string option \<Rightarrow> StreamState \<Rightarrow> string list
     \<Rightarrow> ProviderStreamEvent list \<times> LoopExit" where
  "chunkLoop rt providerName mdl st [] = ([], Exhausted st)"
| "chunkLoop rt providerName mdl st (chunk # rest) =
     (case extractDataPayload chunk of
        None \<Rightarrow> chunkLoop rt providerName mdl st rest
      | Some data \<Rightarrow>
          if data = [] then chunkLoop rt providerName mdl st rest
          else if data = ''[DONE]'' then ([], Broke)
          else
            (case JSON_parse rt data of
               Inl e \<Rightarrow>
                 ([], Threw (ProviderError ''Failed to parse OpenAI stream payload'' TEMPORARY None (Some e)))
             | Inr parsed \<Rightarrow>
                 if parsed = JNull
                 then ([], Threw (Error ''TypeError: Cannot read properties of null''))
                 else
                   (case choicesLoop rt providerName mdl (headerStep st parsed) (choicesOf parsed) of
                      (events, Inl e) \<Rightarrow> (events, Threw e)
                    | (events, Inr st') \<Rightarrow>
                        (case chunkLoop rt providerName mdl st' rest of
                           (events', ex) \<Rightarrow> (events @ events', ex)))))"

definition initialState :: StreamState where
  "initialState = \<lparr>accumulatedContent = [], cur_role = None, cur_traceId = None, usageRaw = None\<rparr>"

text \<open>
  \<^verbatim>\<open>mapChatCompletionsStream\<close>, read to its end: the events it yields, in order, and the
  error that ends it, if one does.
\<close>

definition mapChatCompletionsStream :: "Runtime \<Rightarrow> string list \<Rightarrow> string \<Rightarrow> string option \<Rightarrow> EventStream" where
  "mapChatCompletionsStream rt source providerName mdl =
     (case chunkLoop rt providerName mdl initialState source of
        (events, Threw e) \<Rightarrow> (events, Some e)
      | (events, ex) \<Rightarrow> (events, None))"

text \<open>
  A chunk carries a terminal marker when its data payload parses to a value one of whose
  choices has \<^verbatim>\<open>finish_reason\<close> equal to \<^verbatim>\<open>'stop'\<close>; an event is a completion event
  when its \<^verbatim>\<open>type\<close> says so.
\<close>

definition carriesStop :: "Runtime \<Rightarrow> string \<Rightarrow> bool" where
  "carriesStop rt chunk =
     (case extractDataPayload chunk of
        None \<Rightarrow> False
      | Some data \<Rightarrow>
          (case JSON_parse rt data of
             Inl e \<Rightarrow> False
           | Inr parsed \<Rightarrow> list_ex finishedWithStop (choicesOf parsed)))"

definition isCompletion :: "ProviderStreamEvent \<Rightarrow> bool" where
  "isCompletion event = (type event = Completion)"

text \<open>
  A choice is silent when no event can come from it: it has no \<^verbatim>\<open>delta\<close> whose
  \<^verbatim>\<open>role\<close> or \<^verbatim>\<open>content\<close> is a non-empty string, and its \<^verbatim>\<open>finish_reason\<close> is not
  \<^verbatim>\<open>'stop'\<close>. A chunk is silent when it has no data payload, or its payload is empty or
  the sentinel, or the payload does not parse, or every choice of the parsed value is
  silent: a keep-alive, a chunk with usage figures only.
\<close>

definition nonEmptyString :: "json option \<Rightarrow> bool" where
  "nonEmptyString v = (case v of Some (JString str) \<Rightarrow> str \<noteq> [] | _ \<Rightarrow> False)"

definition silentChoice :: "json \<Rightarrow> bool" where
  "silentChoice choice =
     ((case getProp choice ''delta'' of
         None \<Rightarrow> True
       | Some d \<Rightarrow> \<not> nonEmptyString (getProp d ''role'') \<and> \<not> nonEmptyString (getProp d ''content''))
      \<and> \<not> finishedWithStop choice)"

definition silentChunk :: "Runtime \<Rightarrow> string \<Rightarrow> bool" where
  "silentChunk rt chunk =
     (case extractDataPayload chunk of
        None \<Rightarrow> True
      | Some data \<Rightarrow>
          data = [] \<or> data = ''[DONE]'' \<or>
          (case JSON_parse rt data of
             Inl e \<Rightarrow> True
           | Inr parsed \<Rightarrow> list_all silentChoice (choicesOf parsed)))"

section \<open>Usage normalization in the words of the specification\<close>

text \<open>
  What the amended claim on usage normalization says, written independently of the
  functions above, to be compared with them. A raw count is numeric when it is a finite
  JSON number, or a string that is not blank and that \<^verbatim>\<open>Number\<close> converts to a finite
  number. A count is read under its first name, else under its second, else it is 0. A
  reported count is clamped at 0 and rounded to the nearest integer (\<open>round\<close> of the
  library, a tie going up).
\<close>

definition spec_numeric :: "Runtime \<Rightarrow> json option \<Rightarrow> rat option" where
  "spec_numeric rt v =
     (case v of
        Some (JNumber (Finite x)) \<Rightarrow> Some x
      | Some (JString str) \<Rightarrow>
          if list_all isWhiteSpace str then None
          else (case Number_of_string rt str of Finite x \<Rightarrow> Some x | _ \<Rightarrow> None)
      | _ \<Rightarrow> None)"

definition spec_read :: "Runtime \<Rightarrow> (string \<times> json) list \<Rightarrow> string \<Rightarrow> string \<Rightarrow> rat" where
  "spec_read rt props first second =
     (case spec_numeric rt (map_of props first) of
        Some x \<Rightarrow> x
      | None \<Rightarrow> (case spec_numeric rt (map_of props second) of
                   Some y \<Rightarrow> y
                 | None \<Rightarrow> 0))"

definition spec_reported :: "rat \<Rightarrow> rat" where
  "spec_reported x = (if x \<le> 0 then 0 else of_int (round x))"

section \<open>Test doubles and sample inputs\<close>

text \<open>
  Concrete configurations, requests and stub adapters, after those of the repository's
  orchestrator tests. A stub adapter keeps the number of calls it has received as the
  state of the world.
\<close>

definition stubConfig :: "rat option \<Rightarrow> CallerConfig" where
  "stubConfig n =
     \<lparr>providers =
        [(''openai'', \<lparr>baseUrl = ''https://api.openai.com'', defaultModel = ''gpt-4o-mini'',
                      capabilities = [''chat'', ''embed''], defaults = None, scores = None\<rparr>)],
      retry = Some \<lparr>maxAttempts = n\<rparr>\<rparr>"

definition stubRequest :: NormalizedChatRequest where
  "stubRequest =
     \<lparr>requestId = ''req-7'', callerTool = ''tool'', provider = None, model = None,
      messages = [(''user'', ''retry exhaustion'')], temperature = None, maxTokens = None\<rparr>"

definition flakyAdapter :: "(nat, unit, unit) ProviderAdapter" where
  "flakyAdapter =
     \<lparr>name = ''openai'', supports = (\<lambda>cap. cap = ''chat'' \<or> cap = ''embed''),
      chat = (\<lambda>req n.
                (if n = 0 then Inl (ProviderError ''transient failure'' TEMPORARY None None)
                 else Inr \<lparr>payload = Object () None, traceId = ''trace-after'',
                          retryAfterMs = None, attempts = None\<rparr>, Suc n)),
      chatStream = None,
      embed = Some (\<lambda>req n.
                (if n = 0 then Inl (ProviderError ''transient failure'' TEMPORARY None None)
                 else Inr \<lparr>payload = Object () None, traceId = ''trace-after'',
                          retryAfterMs = None, attempts = None\<rparr>, Suc n))\<rparr>"

definition stubEmbedRequest :: NormalizedEmbedRequest where
  "stubEmbedRequest =
     \<lparr>requestId = ''embed-1'', callerTool = ''tool'', provider = None, model = None,
      inputs = [TextInput ''Hello world'']\<rparr>"

definition unsupportingAdapter :: "(nat, unit, unit) ProviderAdapter" where
  "unsupportingAdapter =
     \<lparr>name = ''openai'', supports = (\<lambda>cap. False),
      chat = (\<lambda>req n. (Inr \<lparr>payload = Object () None, traceId = ''trace-openai'',
                                   retryAfterMs = None, attempts = None\<rparr>, Suc n)),
      chatStream = Some (\<lambda>req n. (([], None), Suc n)),
      embed = Some (\<lambda>req n. (Inr \<lparr>payload = Object () None, traceId = ''trace-openai'',
                                         retryAfterMs = None, attempts = None\<rparr>, Suc n))\<rparr>"

definition failingAdapter :: "thrown \<Rightarrow> (nat, unit, unit) ProviderAdapter" where
  "failingAdapter e =
     \<lparr>name = ''openai'', supports = (\<lambda>cap. cap = ''chat'' \<or> cap = ''embed''),
      chat = (\<lambda>req n. (Inl e, Suc n)),
      chatStream = None,
      embed = Some (\<lambda>req n. (Inl e, Suc n))\<rparr>"

definition embedOnlyConfig :: CallerConfig where
  "embedOnlyConfig =
     \<lparr>providers =
        [(''openai'', \<lparr>baseUrl = ''https://api.openai.com'', defaultModel = ''gpt-4o-mini'',
                      capabilities = [''embed''], defaults = None, scores = None\<rparr>)],
      retry = None\<rparr>"

definition chatOnlyAdapter :: "(nat, unit, unit) ProviderAdapter" where
  "chatOnlyAdapter =
     \<lparr>name = ''openai'', supports = (\<lambda>cap. cap = ''chat''),
      chat = (\<lambda>req n. (Inr \<lparr>payload = Object () None, traceId = ''trace-openai'',
                                   retryAfterMs = None, attempts = None\<rparr>, Suc n)),
      chatStream = Some (\<lambda>req n. (([], None), Suc n)),
      embed = None\<rparr>"

definition scenarioProviders :: "(string \<times> ProviderConfig) list" where
  "scenarioProviders =
     [(''A'', \<lparr>baseUrl = ''http://localhost:1234/v1'', defaultModel = ''a-default'',
               capabilities = [''chat''], defaults = None,
               scores = Some [''chat'' \<mapsto> 95]\<rparr>),
      (''B'', \<lparr>baseUrl = ''http://localhost:1235/v1'', defaultModel = ''b-default'',
               capabilities = [''chat''], defaults = Some [''chat'' \<mapsto> ''x''],
               scores = Some [''chat'' \<mapsto> 10]\<rparr>)]"

text \<open>
  Sample stream chunks in the wire format of the repository's adapter tests
  (tests/openaiAdapter.spec.ts), and a runtime whose \<^verbatim>\<open>JSON.parse\<close> is the table of the
  values of the payload texts used here (every other text is a syntax error for it).
\<close>

definition chunkHel :: string where
  \<open>chunkHel = ''data: {"choices":[{"delta":{"role":"assistant","content":"Hel"}}]}'' @ [CHR 0x0A, CHR 0x0A]\<close>

definition chunkLo :: string where
  \<open>chunkLo = ''data: {"choices":[{"delta":{"content":"lo"}}]}'' @ [CHR 0x0A, CHR 0x0A]\<close>

definition chunkStop :: string where
  \<open>chunkStop = ''data: {"choices":[{"finish_reason":"stop"}]}'' @ [CHR 0x0A, CHR 0x0A]\<close>

definition chunkLength :: string where
  \<open>chunkLength = ''data: {"choices":[{"finish_reason":"length"}]}'' @ [CHR 0x0A, CHR 0x0A]\<close>

definition chunkUsageOnly :: string where
  \<open>chunkUsageOnly = ''data: {"choices":[],"usage":{"prompt_tokens":12,"completion_tokens":8}}''
     @ [CHR 0x0A, CHR 0x0A]\<close>

definition chunkBareHel :: string where
  \<open>chunkBareHel = ''data: {"delta":{"role":"assistant","content":"Hel"}}'' @ [CHR 0x0A, CHR 0x0A]\<close>

definition chunkBareLo :: string where
  \<open>chunkBareLo = ''data: {"delta":{"content":"lo"}}'' @ [CHR 0x0A, CHR 0x0A]\<close>

definition chunkBareStop :: string where
  \<open>chunkBareStop = ''data: {"finish_reason":"stop"}'' @ [CHR 0x0A, CHR 0x0A]\<close>

definition chunkDone :: string where
  \<open>chunkDone = ''data: [DONE]'' @ [CHR 0x0A, CHR 0x0A]\<close>

definition jsonHel :: json where
  "jsonHel = JObject [(''choices'', JArray [JObject [(''delta'',
                JObject [(''role'', JString ''assistant''), (''content'', JString ''Hel'')])]])]"

definition jsonLo :: json where
  "jsonLo = JObject [(''choices'', JArray [JObject [(''delta'', JObject [(''content'', JString ''lo'')])]])]"

definition jsonStop :: json where
  "jsonStop = JObject [(''choices'', JArray [JObject [(''finish_reason'', JString ''stop'')]])]"

definition jsonLength :: json where
  "jsonLength = JObject [(''choices'', JArray [JObject [(''finish_reason'', JString ''length'')]])]"

definition jsonUsageOnly :: json where
  "jsonUsageOnly = JObject [(''choices'', JArray []),
                            (''usage'', JObject [(''prompt_tokens'', JNumber (Finite 12)),
                                                 (''completion_tokens'', JNumber (Finite 8))])]"

definition jsonBareHel :: json where
  "jsonBareHel = JObject [(''delta'',
                   JObject [(''role'', JString ''assistant''), (''content'', JString ''Hel'')])]"

definition jsonBareLo :: json where
  "jsonBareLo = JObject [(''delta'', JObject [(''content'', JString ''lo'')])]"

definition jsonBareStop :: json where
  "jsonBareStop = JObject [(''finish_reason'', JString ''stop'')]"

definition sampleTexts :: "(string \<times> json) list" where
  \<open>sampleTexts =
     [(''{"choices":[{"delta":{"role":"assistant","content":"Hel"}}]}'', jsonHel),
      (''{"choices":[{"delta":{"content":"lo"}}]}'', jsonLo),
      (''{"choices":[{"finish_reason":"stop"}]}'', jsonStop),
      (''{"choices":[{"finish_reason":"length"}]}'', jsonLength),
      (''{"choices":[],"usage":{"prompt_tokens":12,"completion_tokens":8}}'', jsonUsageOnly),
      (''{"delta":{"role":"assistant","content":"Hel"}}'', jsonBareHel),
      (''{"delta":{"content":"lo"}}'', jsonBareLo),
      (''{"finish_reason":"stop"}'', jsonBareStop)]\<close>

definition sampleRuntime :: Runtime where
  "sampleRuntime =
     \<lparr>JSON_parse = (\<lambda>text. case map_of sampleTexts text of
                                None \<Rightarrow> Inl (Error ''SyntaxError'')
                              | Some v \<Rightarrow> Inr v),
      Number_of_string = (\<lambda>str. NaN),
      Number_add = (\<lambda>x y. Finite (x + y))\<rparr>"

text \<open>
  A runtime for the usage examples: its \<^verbatim>\<open>Number\<close> yields \<^verbatim>\<open>NaN\<close> on every string, as
  the real one does on text such as \<^verbatim>\<open>n/a\<close>, and it adds exactly, as doubles do on the
  small integers of the examples. Raw usage objects follow.
\<close>

definition plainRuntime :: Runtime where
  "plainRuntime =
     \<lparr>JSON_parse = (\<lambda>text. Inl (Error ''SyntaxError'')),
      Number_of_string = (\<lambda>str. NaN),
      Number_add = (\<lambda>x y. Finite (x + y))\<rparr>"

definition usageDisagreeing :: "(string \<times> json) list" where
  "usageDisagreeing =
     [(''prompt_tokens'', JNumber (Finite (-3))), (''input_tokens'', JNumber (Finite 7)),
      (''completion_tokens'', JString ''n/a''), (''output_tokens'', JNumber (Finite (5 / 2))),
      (''total_tokens'', JNumber (Finite 20))]"

definition usageNoTotal :: "(string \<times> json) list" where
  "usageNoTotal = [(''prompt_tokens'', JNumber (Finite 5))]"

definition usageNegativeTotal :: "(string \<times> json) list" where
  "usageNegativeTotal =
     [(''prompt_tokens'', JNumber (Finite 3)), (''completion_tokens'', JNumber (Finite 4)),
      (''total_tokens'', JNumber (Finite (-5)))]"

section \<open>Status mapping\<close>

text \<open>
  Claim C5. For every integer HTTP status \<open>n\<close>, \<^verbatim>\<open>mapStatusToClassification\<close> returns
  AUTH exactly for 401 and 403, RATE_LIMIT exactly for 429, TEMPORARY for every
  \<open>n \<ge> 500\<close>, PERMANENT for every other \<open>n\<close> with \<open>400 \<le> n < 500\<close>, and TEMPORARY for every
  status outside these ranges (below 400).
\<close>

theorem mapStatusToClassification_table:
  "(mapStatusToClassification n = AUTH \<longleftrightarrow> n = 401 \<or> n = 403)
   \<and> (mapStatusToClassification n = RATE_LIMIT \<longleftrightarrow> n = 429)
   \<and> (500 \<le> n \<longrightarrow> mapStatusToClassification n = TEMPORARY)
   \<and> (400 \<le> n \<and> n < 500 \<and> n \<noteq> 401 \<and> n \<noteq> 403 \<and> n \<noteq> 429
        \<longrightarrow> mapStatusToClassification n = PERMANENT)
   \<and> (n < 400 \<longrightarrow> mapStatusToClassification n = TEMPORARY)"
  by simp

theorem mapStatusToClassification_table_witness:
  "mapStatusToClassification 503 = TEMPORARY
   \<and> mapStatusToClassification 404 = PERMANENT
   \<and> mapStatusToClassification 302 = TEMPORARY
   \<and> mapStatusToClassification 403 = AUTH
   \<and> mapStatusToClassification 429 = RATE_LIMIT"
  using mapStatusToClassification_table [of 503] mapStatusToClassification_table [of 404]
    mapStatusToClassification_table [of 302] mapStatusToClassification_table [of 403]
    mapStatusToClassification_table [of 429]
  by simp

section \<open>Retry loop\<close>

lemma retryLoop_always_temporary:
  fixes calls :: "'s \<Rightarrow> nat"
  assumes always: "\<And>s. \<exists>m r cs s'. operation s = (Inl (ProviderError m TEMPORARY r cs), s')"
    and count: "\<And>s. calls (snd (operation s)) = Suc (calls s)"
  shows "attempt < maxAtt \<Longrightarrow>
         \<exists>m r cs s'. retryLoop operation key maxAtt attempt lastProviderError s
              = (Inl (afterLoop key maxAtt (Some (ProviderError m TEMPORARY r cs))), s')
            \<and> calls s' = calls s + (maxAtt - attempt)"
proof (induction "maxAtt - attempt" arbitrary: attempt lastProviderError s)
  case 0
  then show ?case by simp
next
  case (Suc k)
  obtain m r cs s1 where op: "operation s = (Inl (ProviderError m TEMPORARY r cs), s1)"
    using always by blast
  have c1: "calls s1 = Suc (calls s)" using count [of s] op by simp
  show ?case
  proof (cases "attempt + 1 < maxAtt")
    case True
    have k: "k = maxAtt - (attempt + 1)" using Suc.hyps(2) by simp
    from Suc.hyps(1) [OF k True, of "Some (ProviderError m TEMPORARY r cs)" s1]
    obtain m' r' cs' s' where
      rec: "retryLoop operation key maxAtt (attempt + 1) (Some (ProviderError m TEMPORARY r cs)) s1
              = (Inl (afterLoop key maxAtt (Some (ProviderError m' TEMPORARY r' cs'))), s')"
      and cnt: "calls s' = calls s1 + (maxAtt - (attempt + 1))"
      by blast
    have "retryLoop operation key maxAtt attempt lastProviderError s
            = (Inl (afterLoop key maxAtt (Some (ProviderError m' TEMPORARY r' cs'))), s')"
      using Suc.prems True op rec by (simp add: retryLoop.simps [of operation key maxAtt attempt])
    moreover have "calls s' = calls s + (maxAtt - attempt)"
      using cnt c1 Suc.prems by simp
    ultimately show ?thesis by blast
  next
    case False
    have "retryLoop operation key maxAtt attempt lastProviderError s
            = (Inl (afterLoop key maxAtt (Some (ProviderError m TEMPORARY r cs))), s1)"
      using Suc.prems False op by (simp add: retryLoop.simps [of operation key maxAtt attempt])
    moreover have "calls s1 = calls s + (maxAtt - attempt)"
      using c1 Suc.prems False by simp
    ultimately show ?thesis by blast
  qed
qed

lemma resolveMaxAttempts_configured:
  "1 \<le> N \<Longrightarrow> retry config = Some \<lparr>maxAttempts = Some (of_nat N)\<rparr> \<Longrightarrow> resolveMaxAttempts config = N"
  by (simp add: resolveMaxAttempts_def)

lemma resolveMaxAttempts_pos: "1 \<le> resolveMaxAttempts config"
proof -
  have "\<And>x::rat. 1 \<le> x \<Longrightarrow> Suc 0 \<le> nat \<lfloor>x\<rfloor>"
  proof -
    fix x :: rat assume "1 \<le> x"
    then have "1 \<le> \<lfloor>x\<rfloor>" by (simp add: le_floor_iff)
    then show "Suc 0 \<le> nat \<lfloor>x\<rfloor>" by linarith
  qed
  then show ?thesis by (auto simp: resolveMaxAttempts_def split: option.splits)
qed

lemma selectAdapter_config_defined:
  "selectAdapter key providerConfig adapters cap = Inr adapter \<Longrightarrow> \<exists>pc. providerConfig = Some pc"
  by (auto simp: selectAdapter_def validateCapability_def split: sum.splits if_splits option.splits)

text \<open>
  Claim C3. Let the configured maximum attempt count be \<open>N \<ge> 1\<close>, let routing and adapter
  selection for a chat request succeed, and let every call of the adapter's \<^verbatim>\<open>chat\<close>
  throw a \<^verbatim>\<open>ProviderError\<close> classified TEMPORARY. Then \<^verbatim>\<open>dispatchChat\<close> calls \<^verbatim>\<open>chat\<close>
  exactly \<open>N\<close> times (whatever counter \<open>calls\<close> the adapter keeps of its calls has grown by
  \<open>N\<close>) and throws a new \<^verbatim>\<open>ProviderError\<close> classified TEMPORARY, the classification of
  the last failure, which it carries as its cause, with the message
  \<^verbatim>\<open>Provider <key> failed after <N> attempts\<close>.
\<close>

theorem dispatchChat_retry_exhaustion:
  fixes calls :: "'s \<Rightarrow> nat"
  assumes N: "1 \<le> N" and cfg: "retry config = Some \<lparr>maxAttempts = Some (of_nat N)\<rparr>"
    and routed: "resolveRoutingSelection ''chat'' request (providers config) = Inr routing"
    and selected: "selectAdapter (providerKey routing) (map_of (providers config) (providerKey routing))
                     adapters ''chat'' = Inr adapter"
    and always: "\<forall>req s. \<exists>m r cs s'. chat adapter req s = (Inl (ProviderError m TEMPORARY r cs), s')"
    and count: "\<forall>req s. calls (snd (chat adapter req s)) = Suc (calls s)"
  shows "\<exists>m r cs s'.
           dispatchChat config adapters request s
             = (Inl (ProviderError
                       (''Provider '' @ providerKey routing @ '' failed after '' @ numberToString N @ '' attempts'')
                       TEMPORARY None (Some (ProviderError m TEMPORARY r cs))), s')
           \<and> calls s' = calls s + N"
proof -
  obtain pc where pc: "map_of (providers config) (providerKey routing) = Some pc"
    using selectAdapter_config_defined [OF selected] by blast
  define nreq where "nreq = normalizeChatRequest request (providerKey routing) pc (sel_model routing)"
  have max: "resolveMaxAttempts config = N" using resolveMaxAttempts_configured [OF N cfg] .
  have "0 < N" using N by simp
  from retryLoop_always_temporary [of "chat adapter nreq" calls 0 N "providerKey routing" None s]
  obtain m r cs s' where
    loop: "retryLoop (chat adapter nreq) (providerKey routing) N 0 None s
             = (Inl (afterLoop (providerKey routing) N (Some (ProviderError m TEMPORARY r cs))), s')"
    and cnt: "calls s' = calls s + (N - 0)"
    using always count \<open>0 < N\<close> by blast
  have "dispatchChat config adapters request s
          = (Inl (afterLoop (providerKey routing) N (Some (ProviderError m TEMPORARY r cs))), s')"
    using routed selected pc max loop
    by (simp add: dispatchChat_def executeWithRetry_def nreq_def)
  then show ?thesis using cnt by (auto simp: afterLoop_def)
qed

theorem dispatchChat_retry_exhaustion_witness:
  "\<exists>m r cs s'.
     dispatchChat (stubConfig (Some 3)) [failingAdapter (ProviderError ''network blip'' TEMPORARY None None)]
         stubRequest (0::nat)
       = (Inl (ProviderError ''Provider openai failed after 3 attempts''
                 TEMPORARY None (Some (ProviderError m TEMPORARY r cs))), s')
     \<and> s' = 0 + 3"
proof -
  have r: "resolveRoutingSelection ''chat'' stubRequest (providers (stubConfig (Some 3)))
             = Inr \<lparr>providerKey = ''openai'', sel_model = Some ''gpt-4o-mini'', sel_strategy = fallback\<rparr>"
    by (simp add: resolveRoutingSelection_def stubRequest_def stubConfig_def defaultFor_def scoreFor_def)
  have n3: "numberToString 3 = ''3''"
    by (simp add: numberToString.simps [of 3] digitChar_def)
  show ?thesis
    using dispatchChat_retry_exhaustion [where N = 3 and config = "stubConfig (Some 3)"
        and request = stubRequest
        and routing = "\<lparr>providerKey = ''openai'', sel_model = Some ''gpt-4o-mini'', sel_strategy = fallback\<rparr>"
        and adapters = "[failingAdapter (ProviderError ''network blip'' TEMPORARY None None)]"
        and adapter = "failingAdapter (ProviderError ''network blip'' TEMPORARY None None)"
        and calls = "\<lambda>n. n" and s = 0, OF _ _ r]
    by (simp add: n3 stubConfig_def selectAdapter_def getRegisteredAdapter_def validateCapability_def
          failingAdapter_def)
qed

lemma retryLoop_not_retried:
  assumes "attempt < maxAtt" and "operation s = (Inl e, s1)"
    and "\<not> isProviderError e \<or> err_classification e \<in> {Some PERMANENT, Some AUTH, Some CONFIG}"
  shows "retryLoop operation key maxAtt attempt lastProviderError s = (Inl e, s1)"
  using assms by (cases e) (auto simp: retryLoop.simps [of operation key maxAtt attempt])

text \<open>
  Claim C4. Let routing and adapter selection for a chat request succeed and let the
  first call of the adapter's \<^verbatim>\<open>chat\<close> throw \<open>e\<close>, where \<open>e\<close> is a \<^verbatim>\<open>ProviderError\<close>
  classified PERMANENT, AUTH or CONFIG, or is not a \<^verbatim>\<open>ProviderError\<close> at all. Then, for
  every configuration (so for every configured maximum), \<^verbatim>\<open>dispatchChat\<close> throws \<open>e\<close>
  itself, and the state of the world is the one after that single call: the adapter has
  been called exactly once.
\<close>

theorem dispatchChat_no_retry:
  fixes calls :: "'s \<Rightarrow> nat"
  assumes routed: "resolveRoutingSelection ''chat'' request (providers config) = Inr routing"
    and selected: "selectAdapter (providerKey routing) (map_of (providers config) (providerKey routing))
                     adapters ''chat'' = Inr adapter"
    and first: "\<forall>req. fst (chat adapter req s) = Inl e"
    and nonretry: "\<not> isProviderError e \<or> err_classification e \<in> {Some PERMANENT, Some AUTH, Some CONFIG}"
    and count: "\<forall>req s. calls (snd (chat adapter req s)) = Suc (calls s)"
  shows "\<exists>req. dispatchChat config adapters request s = (Inl e, snd (chat adapter req s))
               \<and> calls (snd (chat adapter req s)) = calls s + 1"
proof -
  obtain pc where pc: "map_of (providers config) (providerKey routing) = Some pc"
    using selectAdapter_config_defined [OF selected] by blast
  define nreq where "nreq = normalizeChatRequest request (providerKey routing) pc (sel_model routing)"
  have op: "chat adapter nreq s = (Inl e, snd (chat adapter nreq s))"
    using first by (metis prod.collapse)
  have pos: "0 < resolveMaxAttempts config"
    using resolveMaxAttempts_pos [of config] by simp
  have loop: "retryLoop (chat adapter nreq) (providerKey routing) (resolveMaxAttempts config) 0 None s
                = (Inl e, snd (chat adapter nreq s))"
    using retryLoop_not_retried [where operation = "chat adapter nreq" and s = s, OF pos op nonretry] .
  have "dispatchChat config adapters request s = (Inl e, snd (chat adapter nreq s))"
    using routed selected pc loop
    by (simp add: dispatchChat_def executeWithRetry_def nreq_def)
  moreover have "calls (snd (chat adapter nreq s)) = calls s + 1"
    using count by simp
  ultimately show ?thesis by blast
qed

lemma stub_routing:
  "resolveRoutingSelection ''chat'' stubRequest (providers (stubConfig n))
     = Inr \<lparr>providerKey = ''openai'', sel_model = Some ''gpt-4o-mini'', sel_strategy = fallback\<rparr>"
  by (simp add: resolveRoutingSelection_def stubRequest_def stubConfig_def defaultFor_def scoreFor_def)

theorem dispatchChat_no_retry_witness:
  "(\<exists>req. dispatchChat (stubConfig (Some 5)) [failingAdapter (ProviderError ''validation failed'' PERMANENT None None)]
             stubRequest (0::nat)
           = (Inl (ProviderError ''validation failed'' PERMANENT None None),
              snd (chat (failingAdapter (ProviderError ''validation failed'' PERMANENT None None)) req 0))
         \<and> snd (chat (failingAdapter (ProviderError ''validation failed'' PERMANENT None None)) req 0) = 0 + 1)
   \<and> (\<exists>req. dispatchChat (stubConfig (Some 5)) [failingAdapter (Error ''No response configured'')]
             stubRequest (0::nat)
           = (Inl (Error ''No response configured''),
              snd (chat (failingAdapter (Error ''No response configured'')) req 0))
         \<and> snd (chat (failingAdapter (Error ''No response configured'')) req 0) = 0 + 1)"
proof -
  have sel: "\<And>e. selectAdapter ''openai'' (map_of (providers (stubConfig (Some 5))) ''openai'')
               [failingAdapter e] ''chat'' = Inr (failingAdapter e)"
    by (simp add: stubConfig_def selectAdapter_def getRegisteredAdapter_def validateCapability_def
          failingAdapter_def)
  have a: "\<And>e req. fst (chat (failingAdapter e) req (0::nat)) = Inl e"
    by (simp add: failingAdapter_def)
  have c: "\<And>e req s. snd (chat (failingAdapter e) req s) = Suc s"
    by (simp add: failingAdapter_def)
  show ?thesis
    using dispatchChat_no_retry [where calls = "\<lambda>n. n" and s = 0 and config = "stubConfig (Some 5)"
        and request = stubRequest
        and routing = "\<lparr>providerKey = ''openai'', sel_model = Some ''gpt-4o-mini'', sel_strategy = fallback\<rparr>"
        and adapters = "[failingAdapter (ProviderError ''validation failed'' PERMANENT None None)]"
        and adapter = "failingAdapter (ProviderError ''validation failed'' PERMANENT None None)"
        and e = "ProviderError ''validation failed'' PERMANENT None None"]
      dispatchChat_no_retry [where calls = "\<lambda>n. n" and s = 0 and config = "stubConfig (Some 5)"
        and request = stubRequest
        and routing = "\<lparr>providerKey = ''openai'', sel_model = Some ''gpt-4o-mini'', sel_strategy = fallback\<rparr>"
        and adapters = "[failingAdapter (Error ''No response configured'')]"
        and adapter = "failingAdapter (Error ''No response configured'')"
        and e = "Error ''No response configured''"]
    by (simp add: stub_routing sel a c)
qed

section \<open>Embed dispatch\<close>

text \<open>
  Claim C1. The claim says \<^verbatim>\<open>dispatchEmbed\<close> retries a retryable failure as
  \<^verbatim>\<open>dispatchChat\<close> does. The code does not: with the default maximum of 2 attempts and
  an adapter whose first call throws a TEMPORARY \<^verbatim>\<open>ProviderError\<close> and whose second call
  would succeed, \<^verbatim>\<open>dispatchEmbed\<close> calls \<^verbatim>\<open>embed\<close> once and throws that error, while
  \<^verbatim>\<open>dispatchChat\<close> with the same adapter calls \<^verbatim>\<open>chat\<close> twice and returns the response
  with \<^verbatim>\<open>attempts = 2\<close>.
\<close>

theorem dispatchEmbed_single_attempt:
  "dispatchEmbed (stubConfig None) [flakyAdapter] stubEmbedRequest (0::nat)
     = (Inl (ProviderError ''transient failure'' TEMPORARY None None), 1)
   \<and> resolveMaxAttempts (stubConfig None) = 2
   \<and> dispatchChat (stubConfig None) [flakyAdapter] stubRequest (0::nat)
     = (Inr \<lparr>payload = Object () (Some \<lparr>info_name = Present ''openai'', info_model = Present ''gpt-4o-mini'',
                    info_routing = Some \<lparr>capability = ''chat'', strategy = fallback\<rparr>\<rparr>),
             traceId = ''trace-after'', retryAfterMs = None, attempts = Some 2\<rparr>, 2)"
proof -
  have r: "resolveRoutingSelection ''embed'' stubEmbedRequest (providers (stubConfig None))
             = Inr \<lparr>providerKey = ''openai'', sel_model = Some ''gpt-4o-mini'', sel_strategy = fallback\<rparr>"
    by (simp add: resolveRoutingSelection_def stubEmbedRequest_def stubConfig_def defaultFor_def scoreFor_def)
  have e: "dispatchEmbed (stubConfig None) [flakyAdapter] stubEmbedRequest (0::nat)
             = (Inl (ProviderError ''transient failure'' TEMPORARY None None), 1)"
    by (simp add: dispatchEmbed_def r)
       (simp add: stubConfig_def selectAdapter_def getRegisteredAdapter_def validateCapability_def
          flakyAdapter_def)
  have m: "resolveMaxAttempts (stubConfig None) = 2"
    by (simp add: resolveMaxAttempts_def stubConfig_def)
  have c: "dispatchChat (stubConfig None) [flakyAdapter] stubRequest (0::nat)
     = (Inr \<lparr>payload = Object () (Some \<lparr>info_name = Present ''openai'', info_model = Present ''gpt-4o-mini'',
                    info_routing = Some \<lparr>capability = ''chat'', strategy = fallback\<rparr>\<rparr>),
             traceId = ''trace-after'', retryAfterMs = None, attempts = Some 2\<rparr>, 2)"
    by (simp add: dispatchChat_def stub_routing m)
       (simp add: stubConfig_def selectAdapter_def getRegisteredAdapter_def validateCapability_def
          flakyAdapter_def executeWithRetry_def retryLoop.simps [of _ _ 2 0] retryLoop.simps [of _ _ 2 "Suc 0"]
          normalizeChatRequest_def stubRequest_def)
  show ?thesis using e m c by simp
qed

section \<open>Capability checks and routing\<close>

lemma selectAdapter_mismatch:
  assumes "getRegisteredAdapter key adapters = Inr adapter"
    and "\<not> supports adapter cap \<or> cap \<notin> set (capabilities pc)"
  shows "\<exists>msg. selectAdapter key (Some pc) adapters cap = Inl (Error msg)"
  using assms by (auto simp: selectAdapter_def validateCapability_def)

text \<open>
  Claim C9, as amended. Let routing select a provider whose adapter is registered, and let
  that adapter not advertise the capability the dispatch checks, or the provider's
  configuration not declare it; the capability checked is \<^verbatim>\<open>chat\<close> for \<^verbatim>\<open>dispatchChat\<close>
  and for \<^verbatim>\<open>dispatchChatStream\<close>, and \<^verbatim>\<open>embed\<close> for \<^verbatim>\<open>dispatchEmbed\<close>. Then the dispatch
  throws a plain \<^verbatim>\<open>Error\<close>, which is not a \<^verbatim>\<open>ProviderError\<close> and has no classification,
  and the state of the world is unchanged: the adapter's capability method, which is
  \<^verbatim>\<open>chat\<close>, \<^verbatim>\<open>chatStream\<close> or \<^verbatim>\<open>embed\<close>, has not been called and nothing has been
  retried. The one method of the adapter that the dispatch does call before it fails is
  \<^verbatim>\<open>supports\<close>, which answers whether the capability is advertised.
\<close>

theorem dispatch_capability_mismatch:
  assumes reg: "getRegisteredAdapter (providerKey routing) adapters = Inr adapter"
    and pc: "map_of (providers config) (providerKey routing) = Some pc"
  shows
    "(resolveRoutingSelection ''chat'' creq (providers config) = Inr routing
        \<and> (\<not> supports adapter ''chat'' \<or> ''chat'' \<notin> set (capabilities pc))
      \<longrightarrow> (\<exists>msg. dispatchChat config adapters creq s = (Inl (Error msg), s)))
     \<and> (resolveRoutingSelection ''chatStream'' creq (providers config) = Inr routing
        \<and> (\<not> supports adapter ''chat'' \<or> ''chat'' \<notin> set (capabilities pc))
      \<longrightarrow> (\<exists>msg. dispatchChatStream config adapters creq s = (Inl (Error msg), s)))
     \<and> (resolveRoutingSelection ''embed'' ereq (providers config) = Inr routing
        \<and> (\<not> supports adapter ''embed'' \<or> ''embed'' \<notin> set (capabilities pc))
      \<longrightarrow> (\<exists>msg. dispatchEmbed config adapters ereq s = (Inl (Error msg), s)))"
proof (intro conjI impI)
  assume a: "resolveRoutingSelection ''chat'' creq (providers config) = Inr routing
        \<and> (\<not> supports adapter ''chat'' \<or> ''chat'' \<notin> set (capabilities pc))"
  then obtain msg where "selectAdapter (providerKey routing) (Some pc) adapters ''chat'' = Inl (Error msg)"
    using selectAdapter_mismatch [OF reg] by blast
  then show "\<exists>msg. dispatchChat config adapters creq s = (Inl (Error msg), s)"
    using a pc by (simp add: dispatchChat_def)
next
  assume a: "resolveRoutingSelection ''chatStream'' creq (providers config) = Inr routing
        \<and> (\<not> supports adapter ''chat'' \<or> ''chat'' \<notin> set (capabilities pc))"
  then obtain msg where "selectAdapter (providerKey routing) (Some pc) adapters ''chat'' = Inl (Error msg)"
    using selectAdapter_mismatch [OF reg] by blast
  then show "\<exists>msg. dispatchChatStream config adapters creq s = (Inl (Error msg), s)"
    using a pc by (simp add: dispatchChatStream_def)
next
  assume a: "resolveRoutingSelection ''embed'' ereq (providers config) = Inr routing
        \<and> (\<not> supports adapter ''embed'' \<or> ''embed'' \<notin> set (capabilities pc))"
  then obtain msg where "selectAdapter (providerKey routing) (Some pc) adapters ''embed'' = Inl (Error msg)"
    using selectAdapter_mismatch [OF reg] by blast
  then show "\<exists>msg. dispatchEmbed config adapters ereq s = (Inl (Error msg), s)"
    using a pc by (simp add: dispatchEmbed_def)
qed

lemma stub_routing_any:
  "cap \<in> {''chat'', ''chatStream'', ''embed''} \<Longrightarrow> provider request = None \<Longrightarrow>
   resolveRoutingSelection cap request (providers (stubConfig n))
     = Inr \<lparr>providerKey = ''openai'', sel_model = Some ''gpt-4o-mini'', sel_strategy = fallback\<rparr>"
  by (auto simp: resolveRoutingSelection_def stubConfig_def defaultFor_def scoreFor_def)

theorem dispatch_capability_mismatch_witness:
  "(\<exists>msg. dispatchChat (stubConfig None) [unsupportingAdapter] stubRequest (0::nat) = (Inl (Error msg), 0))
   \<and> (\<exists>msg. dispatchChatStream (stubConfig None) [unsupportingAdapter] stubRequest (0::nat) = (Inl (Error msg), 0))
   \<and> (\<exists>msg. dispatchEmbed (stubConfig None) [unsupportingAdapter] stubEmbedRequest (0::nat) = (Inl (Error msg), 0))"
proof -
  have reg: "getRegisteredAdapter ''openai'' [unsupportingAdapter] = Inr unsupportingAdapter"
    by (simp add: getRegisteredAdapter_def unsupportingAdapter_def)
  have pc: "map_of (providers (stubConfig None)) ''openai''
              = Some \<lparr>baseUrl = ''https://api.openai.com'', defaultModel = ''gpt-4o-mini'',
                      capabilities = [''chat'', ''embed''], defaults = None, scores = None\<rparr>"
    by (simp add: stubConfig_def)
  have ns: "\<And>cap. \<not> supports unsupportingAdapter cap"
    by (simp add: unsupportingAdapter_def)
  have r1: "resolveRoutingSelection ''chat'' stubRequest (providers (stubConfig None))
     = Inr \<lparr>providerKey = ''openai'', sel_model = Some ''gpt-4o-mini'', sel_strategy = fallback\<rparr>"
    by (rule stub_routing_any) (simp_all add: stubRequest_def)
  have r2: "resolveRoutingSelection ''chatStream'' stubRequest (providers (stubConfig None))
     = Inr \<lparr>providerKey = ''openai'', sel_model = Some ''gpt-4o-mini'', sel_strategy = fallback\<rparr>"
    by (rule stub_routing_any) (simp_all add: stubRequest_def)
  have r3: "resolveRoutingSelection ''embed'' stubEmbedRequest (providers (stubConfig None))
     = Inr \<lparr>providerKey = ''openai'', sel_model = Some ''gpt-4o-mini'', sel_strategy = fallback\<rparr>"
    by (rule stub_routing_any) (simp_all add: stubEmbedRequest_def)
  show ?thesis
    using dispatch_capability_mismatch [where config = "stubConfig None"
        and routing = "\<lparr>providerKey = ''openai'', sel_model = Some ''gpt-4o-mini'', sel_strategy = fallback\<rparr>"
        and adapters = "[unsupportingAdapter]" and adapter = unsupportingAdapter
        and pc = "\<lparr>baseUrl = ''https://api.openai.com'', defaultModel = ''gpt-4o-mini'',
                      capabilities = [''chat'', ''embed''], defaults = None, scores = None\<rparr>"
        and creq = stubRequest and ereq = stubEmbedRequest and s = 0]
    by (simp add: reg pc ns r1 r2 r3)
qed

text \<open>
  Claim C9 as stated fails. An adapter that does not support \<^verbatim>\<open>chat\<close>, or a provider
  that does not declare it, makes \<^verbatim>\<open>dispatchChat\<close> throw a plain \<^verbatim>\<open>Error\<close>: it has no
  classification, so not CONFIG. And \<^verbatim>\<open>dispatchChatStream\<close> does not check the capability
  \<^verbatim>\<open>chatStream\<close> it routes for: with an adapter that supports only \<^verbatim>\<open>chat\<close> and a
  provider that declares only \<^verbatim>\<open>chat\<close> and \<^verbatim>\<open>embed\<close> it calls the adapter and returns
  its stream, as the repository's test of streaming expects.
\<close>

theorem capability_mismatch_is_plain_error:
  "dispatchChat (stubConfig None) [unsupportingAdapter] stubRequest (0::nat)
     = (Inl (Error ''Adapter openai does not support chat capability''), 0)
   \<and> dispatchChat embedOnlyConfig [chatOnlyAdapter] stubRequest (0::nat)
     = (Inl (Error ''Provider openai does not declare capability: chat''), 0)
   \<and> err_classification (Error ''Adapter openai does not support chat capability'') = None
   \<and> err_classification (Error ''Provider openai does not declare capability: chat'') = None
   \<and> \<not> supports chatOnlyAdapter ''chatStream''
   \<and> dispatchChatStream (stubConfig None) [chatOnlyAdapter] stubRequest (0::nat) = (Inr ([], None), 1)"
proof -
  have r1: "resolveRoutingSelection ''chat'' stubRequest (providers (stubConfig None))
     = Inr \<lparr>providerKey = ''openai'', sel_model = Some ''gpt-4o-mini'', sel_strategy = fallback\<rparr>"
    by (rule stub_routing_any) (simp_all add: stubRequest_def)
  have r2: "resolveRoutingSelection ''chatStream'' stubRequest (providers (stubConfig None))
     = Inr \<lparr>providerKey = ''openai'', sel_model = Some ''gpt-4o-mini'', sel_strategy = fallback\<rparr>"
    by (rule stub_routing_any) (simp_all add: stubRequest_def)
  have r3: "resolveRoutingSelection ''chat'' stubRequest (providers embedOnlyConfig)
     = Inr \<lparr>providerKey = ''openai'', sel_model = Some ''gpt-4o-mini'', sel_strategy = fallback\<rparr>"
    by (simp add: resolveRoutingSelection_def stubRequest_def embedOnlyConfig_def)
  have a: "dispatchChat (stubConfig None) [unsupportingAdapter] stubRequest (0::nat)
     = (Inl (Error ''Adapter openai does not support chat capability''), 0)"
    by (simp add: dispatchChat_def r1)
       (simp add: stubConfig_def selectAdapter_def getRegisteredAdapter_def unsupportingAdapter_def)
  have b: "dispatchChat embedOnlyConfig [chatOnlyAdapter] stubRequest (0::nat)
     = (Inl (Error ''Provider openai does not declare capability: chat''), 0)"
    by (simp add: dispatchChat_def r3)
       (simp add: embedOnlyConfig_def selectAdapter_def getRegisteredAdapter_def chatOnlyAdapter_def
          validateCapability_def)
  have c: "dispatchChatStream (stubConfig None) [chatOnlyAdapter] stubRequest (0::nat) = (Inr ([], None), 1)"
    by (simp add: dispatchChatStream_def r2)
       (simp add: stubConfig_def selectAdapter_def getRegisteredAdapter_def chatOnlyAdapter_def
          validateCapability_def attachRoutingToStream_def)
  show ?thesis using a b c by (simp add: chatOnlyAdapter_def)
qed

text \<open>
  Claim C2, as amended. With two providers that both declare \<^verbatim>\<open>chat\<close>, provider A
  declared first with no \<^verbatim>\<open>defaults.chat\<close> and a chat score of 95, provider B with
  \<^verbatim>\<open>defaults.chat = "x"\<close> and a chat score of 10, a chat request without a provider
  override selects provider A, with A's \<^verbatim>\<open>defaultModel\<close> and the strategy \<^verbatim>\<open>fallback\<close>:
  A scores 95 and B scores 10 + 50 = 60.
\<close>

theorem routing_scenario_selects_A:
  assumes "''chat'' \<in> set (capabilities cA)" and "''chat'' \<in> set (capabilities cB)"
    and "defaultFor cA ''chat'' = None" and "scoreFor cA ''chat'' = Some 95"
    and "defaultFor cB ''chat'' = Some ''x''" and "scoreFor cB ''chat'' = Some 10"
    and "provider request = None"
  shows "resolveRoutingSelection ''chat'' request [(kA, cA), (kB, cB)]
           = Inr \<lparr>providerKey = kA, sel_model = Some (defaultModel cA), sel_strategy = fallback\<rparr>"
  using assms by (simp add: resolveRoutingSelection_def)

theorem routing_scenario_selects_A_witness:
  "resolveRoutingSelection ''chat'' stubRequest scenarioProviders
     = Inr \<lparr>providerKey = ''A'', sel_model = Some ''a-default'', sel_strategy = fallback\<rparr>"
  using routing_scenario_selects_A [where request = stubRequest and kA = "''A''" and kB = "''B''"
      and cA = "snd (hd scenarioProviders)" and cB = "snd (hd (tl scenarioProviders))"]
  by (simp add: scenarioProviders_def defaultFor_def scoreFor_def stubRequest_def)

text \<open>
  Claim C2 as stated fails: in such a configuration the selection is provider A, not
  provider B with model \<^verbatim>\<open>x\<close> and strategy \<^verbatim>\<open>capability-default\<close>.
\<close>

theorem routing_scenario_not_B:
  "resolveRoutingSelection ''chat'' stubRequest scenarioProviders
     = Inr \<lparr>providerKey = ''A'', sel_model = Some ''a-default'', sel_strategy = fallback\<rparr>
   \<and> resolveRoutingSelection ''chat'' stubRequest scenarioProviders
     \<noteq> Inr \<lparr>providerKey = ''B'', sel_model = Some ''x'', sel_strategy = capability_default\<rparr>"
  by (simp add: resolveRoutingSelection_def scenarioProviders_def defaultFor_def scoreFor_def stubRequest_def)

section \<open>Streaming normalizer\<close>

lemmas extract_defs = extractDataPayload_def startsWith_def trimStart_def trim_def isWhiteSpace_def

lemma extract_chunkHel:
  \<open>extractDataPayload chunkHel = Some ''{"choices":[{"delta":{"role":"assistant","content":"Hel"}}]}''\<close>
  by (simp add: extract_defs chunkHel_def)

lemma extract_chunkLo:
  \<open>extractDataPayload chunkLo = Some ''{"choices":[{"delta":{"content":"lo"}}]}''\<close>
  by (simp add: extract_defs chunkLo_def)

lemma extract_chunkStop:
  \<open>extractDataPayload chunkStop = Some ''{"choices":[{"finish_reason":"stop"}]}''\<close>
  by (simp add: extract_defs chunkStop_def)

lemma extract_chunkLength:
  \<open>extractDataPayload chunkLength = Some ''{"choices":[{"finish_reason":"length"}]}''\<close>
  by (simp add: extract_defs chunkLength_def)

lemma extract_chunkDone: "extractDataPayload chunkDone = Some ''[DONE]''"
  by (simp add: extract_defs chunkDone_def)

lemma extract_chunkUsageOnly:
  \<open>extractDataPayload chunkUsageOnly
     = Some ''{"choices":[],"usage":{"prompt_tokens":12,"completion_tokens":8}}''\<close>
  by (simp add: extract_defs chunkUsageOnly_def)

lemma extract_chunkBare:
  \<open>extractDataPayload chunkBareHel = Some ''{"delta":{"role":"assistant","content":"Hel"}}''\<close>
  \<open>extractDataPayload chunkBareLo = Some ''{"delta":{"content":"lo"}}''\<close>
  \<open>extractDataPayload chunkBareStop = Some ''{"finish_reason":"stop"}''\<close>
  by (simp_all add: extract_defs chunkBareHel_def chunkBareLo_def chunkBareStop_def)

lemma parse_samples:
  \<open>JSON_parse sampleRuntime ''{"choices":[{"delta":{"role":"assistant","content":"Hel"}}]}'' = Inr jsonHel\<close>
  \<open>JSON_parse sampleRuntime ''{"choices":[{"delta":{"content":"lo"}}]}'' = Inr jsonLo\<close>
  \<open>JSON_parse sampleRuntime ''{"choices":[{"finish_reason":"stop"}]}'' = Inr jsonStop\<close>
  \<open>JSON_parse sampleRuntime ''{"choices":[{"finish_reason":"length"}]}'' = Inr jsonLength\<close>
  \<open>JSON_parse sampleRuntime ''{"choices":[],"usage":{"prompt_tokens":12,"completion_tokens":8}}''
     = Inr jsonUsageOnly\<close>
  \<open>JSON_parse sampleRuntime ''{"delta":{"role":"assistant","content":"Hel"}}'' = Inr jsonBareHel\<close>
  \<open>JSON_parse sampleRuntime ''{"delta":{"content":"lo"}}'' = Inr jsonBareLo\<close>
  \<open>JSON_parse sampleRuntime ''{"finish_reason":"stop"}'' = Inr jsonBareStop\<close>
  by (simp_all add: sampleRuntime_def sampleTexts_def)

lemma deltaStep_events: "\<forall>ev \<in> set (fst (deltaStep st d)). type ev = Delta"
  by (auto simp: deltaStep_def Let_def split: option.splits json.splits prod.splits)

lemma choiceStep_no_stop:
  assumes "\<not> finishedWithStop choice" and "choiceStep rt pn mdl st choice = Inr (evs, st')"
  shows "\<forall>ev \<in> set evs. type ev = Delta"
proof (cases "getProp choice ''delta''")
  case None
  with assms show ?thesis by (auto simp: choiceStep_def split: if_splits)
next
  case (Some d)
  with assms deltaStep_events [of st d] show ?thesis
    by (auto simp: choiceStep_def split: if_splits prod.splits)
qed

lemma choicesLoop_no_stop:
  "\<forall>c \<in> set cs. \<not> finishedWithStop c \<Longrightarrow>
   \<forall>ev \<in> set (fst (choicesLoop rt pn mdl st cs)). type ev = Delta"
proof (induction cs arbitrary: st)
  case Nil
  then show ?case by simp
next
  case (Cons c cs)
  show ?case
  proof (cases "choiceStep rt pn mdl st c")
    case (Inl e)
    then show ?thesis by simp
  next
    case (Inr r)
    obtain evs st' where r: "r = (evs, st')" by (cases r)
    have d: "\<forall>ev \<in> set evs. type ev = Delta"
      using choiceStep_no_stop [of c rt pn mdl st evs st'] Cons.prems Inr r by simp
    have ih: "\<forall>ev \<in> set (fst (choicesLoop rt pn mdl st' cs)). type ev = Delta"
      using Cons.IH [of st'] Cons.prems by simp
    show ?thesis using Inr r d ih by (auto split: prod.splits)
  qed
qed

lemma chunkLoop_no_stop:
  "\<forall>chunk \<in> set source. \<not> carriesStop rt chunk \<Longrightarrow>
   \<forall>ev \<in> set (fst (chunkLoop rt pn mdl st source)). type ev = Delta"
proof (induction source arbitrary: st)
  case Nil
  then show ?case by simp
next
  case (Cons chunk rest)
  have ih: "\<And>st'. \<forall>ev \<in> set (fst (chunkLoop rt pn mdl st' rest)). type ev = Delta"
    using Cons.IH Cons.prems by simp
  show ?case
  proof (cases "extractDataPayload chunk")
    case None
    then show ?thesis using ih by simp
  next
    case (Some data)
    show ?thesis
    proof (cases "data = [] \<or> data = ''[DONE]''")
      case True
      then show ?thesis using Some ih by auto
    next
      case False
      show ?thesis
      proof (cases "JSON_parse rt data")
        case (Inl e)
        then show ?thesis using Some False by simp
      next
        case (Inr parsed)
        have ns: "\<forall>c \<in> set (choicesOf parsed). \<not> finishedWithStop c"
          using Cons.prems Some Inr by (simp add: carriesStop_def list_ex_iff)
        have cl: "\<forall>ev \<in> set (fst (choicesLoop rt pn mdl (headerStep st parsed) (choicesOf parsed))). type ev = Delta"
          using choicesLoop_no_stop [OF ns] .
        show ?thesis
        proof (cases "parsed = JNull")
          case True
          then show ?thesis using Some False Inr by simp
        next
          case nn: False
          obtain evs r where c: "choicesLoop rt pn mdl (headerStep st parsed) (choicesOf parsed) = (evs, r)"
            by (cases "choicesLoop rt pn mdl (headerStep st parsed) (choicesOf parsed)")
          have d: "\<forall>ev \<in> set evs. type ev = Delta" using cl c by simp
          show ?thesis
          proof (cases r)
            case (Inl e)
            then show ?thesis using Some False Inr nn c d by simp
          next
            case st': (Inr st')
            obtain evs' ex where k: "chunkLoop rt pn mdl st' rest = (evs', ex)"
              by (cases "chunkLoop rt pn mdl st' rest")
            have d': "\<forall>ev \<in> set evs'. type ev = Delta" using ih [of st'] k by simp
            show ?thesis using Some False Inr nn c st' k d d' by auto
          qed
        qed
      qed
    qed
  qed
qed

text \<open>
  Claim C10. The normalizer yields a completion event only for a choice whose
  \<^verbatim>\<open>finish_reason\<close> is exactly the string \<^verbatim>\<open>stop\<close>: if no chunk of the source carries such
  a choice, then, whatever other terminal markers (such as \<^verbatim>\<open>length\<close>) the chunks carry
  and whatever deltas were accumulated, no event of the stream is a completion event,
  whether the stream ends at the sentinel, at the end of the source or with an error.
\<close>

theorem completion_only_on_stop:
  assumes "\<forall>chunk \<in> set source. \<not> carriesStop rt chunk"
  shows "filter isCompletion (fst (mapChatCompletionsStream rt source providerName mdl)) = []"
proof -
  have "\<forall>ev \<in> set (fst (chunkLoop rt providerName mdl initialState source)). type ev = Delta"
    using chunkLoop_no_stop [OF assms] .
  then have "\<forall>ev \<in> set (fst (mapChatCompletionsStream rt source providerName mdl)). \<not> isCompletion ev"
    by (auto simp: mapChatCompletionsStream_def isCompletion_def split: prod.splits LoopExit.splits)
  then show ?thesis by (simp add: filter_empty_conv)
qed

lemmas stream_step_defs = choiceStep_def deltaStep_def completionEvent_def finishedWithStop_def
  headerStep_def choicesOf_def

lemma sample_not_null:
  "jsonHel \<noteq> JNull" "jsonLo \<noteq> JNull" "jsonStop \<noteq> JNull" "jsonLength \<noteq> JNull"
  "jsonUsageOnly \<noteq> JNull" "jsonBareHel \<noteq> JNull" "jsonBareLo \<noteq> JNull" "jsonBareStop \<noteq> JNull"
  by (simp_all add: jsonHel_def jsonLo_def jsonStop_def jsonLength_def jsonUsageOnly_def
        jsonBareHel_def jsonBareLo_def jsonBareStop_def)

lemmas sample_facts = extract_chunkHel extract_chunkLo extract_chunkStop extract_chunkLength
  extract_chunkDone extract_chunkUsageOnly extract_chunkBare parse_samples sample_not_null

theorem completion_only_on_stop_witness:
  "filter isCompletion
     (fst (mapChatCompletionsStream sampleRuntime [chunkHel, chunkLo, chunkLength, chunkDone] ''openai'' None)) = []
   \<and> mapChatCompletionsStream sampleRuntime [chunkHel, chunkLo, chunkLength, chunkDone] ''openai'' None
     = ([\<lparr>type = Delta, delta = Some \<lparr>d_role = Some ''assistant'', d_content = Some ''Hel''\<rparr>,
          ev_payload = None, ev_traceId = None\<rparr>,
         \<lparr>type = Delta, delta = Some \<lparr>d_role = None, d_content = Some ''lo''\<rparr>,
          ev_payload = None, ev_traceId = None\<rparr>], None)"
proof -
  have ns: "\<forall>chunk \<in> set [chunkHel, chunkLo, chunkLength, chunkDone]. \<not> carriesStop sampleRuntime chunk"
    by (simp add: carriesStop_def extract_chunkHel extract_chunkLo extract_chunkLength extract_chunkDone
          parse_samples)
       (simp add: sampleRuntime_def sampleTexts_def jsonHel_def jsonLo_def jsonLength_def choicesOf_def
          finishedWithStop_def)
  have ev: "mapChatCompletionsStream sampleRuntime [chunkHel, chunkLo, chunkLength, chunkDone] ''openai'' None
     = ([\<lparr>type = Delta, delta = Some \<lparr>d_role = Some ''assistant'', d_content = Some ''Hel''\<rparr>,
          ev_payload = None, ev_traceId = None\<rparr>,
         \<lparr>type = Delta, delta = Some \<lparr>d_role = None, d_content = Some ''lo''\<rparr>,
          ev_payload = None, ev_traceId = None\<rparr>], None)"
    by (simp add: mapChatCompletionsStream_def initialState_def sample_facts)
       (simp add: jsonHel_def jsonLo_def jsonLength_def stream_step_defs)
  show ?thesis
    using completion_only_on_stop [OF ns, of "''openai''" None] ev by simp
qed

text \<open>
  Claim C6, as amended. Let the source be four chunks: three whose data payloads parse to
  the values of \<^verbatim>\<open>{"choices":[{"delta":{"role":"assistant","content":"Hel"}}]}\<close>,
  \<^verbatim>\<open>{"choices":[{"delta":{"content":"lo"}}]}\<close> and \<^verbatim>\<open>{"choices":[{"finish_reason":"stop"}]}\<close>,
  each object of the claim being the one entry of the \<^verbatim>\<open>choices\<close> array of its payload,
  then one whose payload is the sentinel \<^verbatim>\<open>[DONE]\<close>. Then the normalizer yields exactly
  two delta events, with contents \<^verbatim>\<open>Hel\<close> and \<^verbatim>\<open>lo\<close>, then one completion event whose
  message has content \<^verbatim>\<open>Hello\<close> and role \<^verbatim>\<open>assistant\<close>, and nothing for the sentinel; it
  ends without an error.
\<close>

theorem stream_reconstruction:
  assumes c1: "extractDataPayload c1 = Some t1" "t1 \<noteq> []" "t1 \<noteq> ''[DONE]''"
      "JSON_parse rt t1 = Inr (JObject [(''choices'', JArray [JObject [(''delta'',
          JObject [(''role'', JString ''assistant''), (''content'', JString ''Hel'')])]])])"
    and c2: "extractDataPayload c2 = Some t2" "t2 \<noteq> []" "t2 \<noteq> ''[DONE]''"
      "JSON_parse rt t2 = Inr (JObject [(''choices'', JArray [JObject [(''delta'',
          JObject [(''content'', JString ''lo'')])]])])"
    and c3: "extractDataPayload c3 = Some t3" "t3 \<noteq> []" "t3 \<noteq> ''[DONE]''"
      "JSON_parse rt t3 = Inr (JObject [(''choices'', JArray [JObject [(''finish_reason'', JString ''stop'')]])])"
    and c4: "extractDataPayload c4 = Some ''[DONE]''"
  shows "mapChatCompletionsStream rt [c1, c2, c3, c4] providerName mdl
     = ([\<lparr>type = Delta, delta = Some \<lparr>d_role = Some ''assistant'', d_content = Some ''Hel''\<rparr>,
          ev_payload = None, ev_traceId = None\<rparr>,
         \<lparr>type = Delta, delta = Some \<lparr>d_role = None, d_content = Some ''lo''\<rparr>,
          ev_payload = None, ev_traceId = None\<rparr>,
         \<lparr>type = Completion, delta = None,
          ev_payload = Some (Object \<lparr>message = \<lparr>role = ''assistant'', content = ''Hello''\<rparr>,
                                     usage = normalizeChatUsage rt None\<rparr>
                                    (Some \<lparr>info_name = Present providerName,
                                           info_model = (case mdl of
                                                           None \<Rightarrow> IsUndefined
                                                         | Some m \<Rightarrow> Present m),
                                           info_routing = None\<rparr>)),
          ev_traceId = None\<rparr>], None)"
  using assms by (simp add: mapChatCompletionsStream_def initialState_def stream_step_defs)

theorem stream_reconstruction_witness:
  "mapChatCompletionsStream sampleRuntime [chunkHel, chunkLo, chunkStop, chunkDone] ''openai'' (Some ''gpt-4o-mini'')
     = ([\<lparr>type = Delta, delta = Some \<lparr>d_role = Some ''assistant'', d_content = Some ''Hel''\<rparr>,
          ev_payload = None, ev_traceId = None\<rparr>,
         \<lparr>type = Delta, delta = Some \<lparr>d_role = None, d_content = Some ''lo''\<rparr>,
          ev_payload = None, ev_traceId = None\<rparr>,
         \<lparr>type = Completion, delta = None,
          ev_payload = Some (Object \<lparr>message = \<lparr>role = ''assistant'', content = ''Hello''\<rparr>,
                                     usage = normalizeChatUsage sampleRuntime None\<rparr>
                                    (Some \<lparr>info_name = Present ''openai'', info_model = Present ''gpt-4o-mini'',
                                           info_routing = None\<rparr>)),
          ev_traceId = None\<rparr>], None)"
  using stream_reconstruction [where rt = sampleRuntime and providerName = "''openai''"
      and mdl = "Some ''gpt-4o-mini''", OF extract_chunkHel _ _ _ extract_chunkLo _ _ _ extract_chunkStop _ _ _
      extract_chunkDone]
  by (simp add: parse_samples [unfolded jsonHel_def jsonLo_def jsonStop_def])

text \<open>
  Claim C6 as stated fails. When the data payloads are the objects as the claim lists
  them, \<^verbatim>\<open>{"delta":{"role":"assistant","content":"Hel"}}\<close>, \<^verbatim>\<open>{"delta":{"content":"lo"}}\<close>
  and \<^verbatim>\<open>{"finish_reason":"stop"}\<close>, the parsed values have no \<^verbatim>\<open>choices\<close> array, the loop
  over the choices runs over the empty list, and the normalizer yields no event at all.
\<close>

theorem bare_payloads_yield_nothing:
  "mapChatCompletionsStream sampleRuntime [chunkBareHel, chunkBareLo, chunkBareStop, chunkDone]
     ''openai'' (Some ''gpt-4o-mini'') = ([], None)"
  by (simp add: mapChatCompletionsStream_def initialState_def sample_facts)
     (simp add: jsonBareHel_def jsonBareLo_def jsonBareStop_def stream_step_defs)

text \<open>
  Claim C7 as stated fails: the loop goes on after a completion event. When a chunk with a
  delta follows the chunk with the terminal marker, a delta event follows the completion
  event; when two chunks carry the marker, two completion events are yielded.
\<close>

theorem completion_not_last:
  "map type (fst (mapChatCompletionsStream sampleRuntime [chunkStop, chunkLo, chunkDone] ''openai'' None))
     = [Completion, Delta]
   \<and> map type (fst (mapChatCompletionsStream sampleRuntime [chunkStop, chunkStop, chunkDone] ''openai'' None))
     = [Completion, Completion]"
  by (simp add: mapChatCompletionsStream_def initialState_def sample_facts)
     (simp add: jsonLo_def jsonStop_def stream_step_defs)

lemma choicesLoop_append:
  "choicesLoop rt pn mdl st (xs @ ys) =
     (case choicesLoop rt pn mdl st xs of
        (es, Inl e) \<Rightarrow> (es, Inl e)
      | (es, Inr st') \<Rightarrow> (case choicesLoop rt pn mdl st' ys of (es', r) \<Rightarrow> (es @ es', r)))"
proof (induction xs arbitrary: st)
  case Nil
  then show ?case by simp
next
  case (Cons x xs)
  show ?case
  proof (cases "choiceStep rt pn mdl st x")
    case (Inl e)
    then show ?thesis by simp
  next
    case (Inr p)
    obtain evs st1 where p: "p = (evs, st1)" by (cases p)
    show ?thesis
      using Inr p Cons.IH [of st1] by (auto split: prod.splits sum.splits)
  qed
qed

lemma choiceStep_not_null:
  "choice \<noteq> JNull \<Longrightarrow> \<exists>evs st'. choiceStep rt pn mdl st choice = Inr (evs, st')"
  by (auto simp: choiceStep_def Let_def split: prod.splits)

lemma choicesLoop_not_null:
  "JNull \<notin> set cs \<Longrightarrow> \<exists>es st'. choicesLoop rt pn mdl st cs = (es, Inr st')"
proof (induction cs arbitrary: st)
  case Nil
  then show ?case by simp
next
  case (Cons c cs)
  then obtain evs st1 where s: "choiceStep rt pn mdl st c = Inr (evs, st1)"
    using choiceStep_not_null [of c rt pn mdl st] by auto
  obtain es st' where r: "choicesLoop rt pn mdl st1 cs = (es, Inr st')"
    using Cons.IH [of st1] Cons.prems by auto
  show ?case using s r by simp
qed

lemma choiceStep_stop:
  assumes "choice \<noteq> JNull" and "finishedWithStop choice"
  shows "\<exists>ds st'. choiceStep rt pn mdl st choice = Inr (ds @ [completionEvent rt pn mdl st'], st')
            \<and> (\<forall>d \<in> set ds. type d = Delta)"
proof (cases "getProp choice ''delta''")
  case None
  with assms show ?thesis by (simp add: choiceStep_def)
next
  case (Some d)
  obtain evs st1 where ds: "deltaStep st d = (evs, st1)" by (cases "deltaStep st d")
  have "\<forall>ev \<in> set evs. type ev = Delta" using deltaStep_events [of st d] ds by simp
  with assms Some ds show ?thesis by (auto simp: choiceStep_def)
qed

lemma chunkLoop_append:
  "chunkLoop rt pn mdl st pre = (es, Exhausted st') \<Longrightarrow>
   chunkLoop rt pn mdl st (pre @ post) =
     (case chunkLoop rt pn mdl st' post of (es', ex) \<Rightarrow> (es @ es', ex))"
proof (induction pre arbitrary: st es)
  case Nil
  then show ?case by (auto split: prod.splits)
next
  case (Cons chunk rest)
  show ?case
  proof (cases "extractDataPayload chunk")
    case None
    then show ?thesis using Cons.IH [of st es] Cons.prems by simp
  next
    case (Some data)
    show ?thesis
    proof (cases "data = []")
      case True
      then show ?thesis using Some Cons.IH [of st es] Cons.prems by simp
    next
      case ne: False
      show ?thesis
      proof (cases "data = ''[DONE]''")
        case True
        then show ?thesis using Some Cons.prems by simp
      next
        case nd: False
        show ?thesis
        proof (cases "JSON_parse rt data")
          case (Inl e)
          then show ?thesis using Some ne nd Cons.prems by simp
        next
          case (Inr parsed)
          show ?thesis
          proof (cases "parsed = JNull")
            case True
            then show ?thesis using Some ne nd Inr Cons.prems by simp
          next
            case nn: False
            obtain evs r where c: "choicesLoop rt pn mdl (headerStep st parsed) (choicesOf parsed) = (evs, r)"
              by (cases "choicesLoop rt pn mdl (headerStep st parsed) (choicesOf parsed)")
            show ?thesis
            proof (cases r)
              case (Inl e)
              then show ?thesis using Some ne nd Inr nn c Cons.prems by simp
            next
              case st1: (Inr st1)
              obtain evs' ex where k: "chunkLoop rt pn mdl st1 rest = (evs', ex)"
                by (cases "chunkLoop rt pn mdl st1 rest")
              have ex: "ex = Exhausted st'" and es: "es = evs @ evs'"
                using Some ne nd Inr nn c st1 k Cons.prems by simp_all
              have "chunkLoop rt pn mdl st1 (rest @ post)
                      = (case chunkLoop rt pn mdl st' post of (es', ex) \<Rightarrow> (evs' @ es', ex))"
                using Cons.IH [of st1 evs'] k ex by simp
              then show ?thesis
                using Some ne nd Inr nn c st1 es by (auto split: prod.splits)
            qed
          qed
        qed
      qed
    qed
  qed
qed


lemma deltaStep_silent:
  assumes "\<not> nonEmptyString (getProp d ''role'')" and "\<not> nonEmptyString (getProp d ''content'')"
  shows "fst (deltaStep st d) = []"
  using assms
  by (auto simp: deltaStep_def nonEmptyString_def Let_def split: option.splits json.splits)

lemma choiceStep_silent:
  assumes "silentChoice choice"
  shows "(\<exists>e. choiceStep rt pn mdl st choice = Inl e) \<or> (\<exists>st'. choiceStep rt pn mdl st choice = Inr ([], st'))"
proof (cases "getProp choice ''delta''")
  case None
  with assms show ?thesis by (simp add: choiceStep_def silentChoice_def)
next
  case (Some d)
  obtain evs st1 where ds: "deltaStep st d = (evs, st1)" by (cases "deltaStep st d")
  have "evs = []"
    using deltaStep_silent [of d st] assms Some ds by (simp add: silentChoice_def)
  with assms Some ds show ?thesis by (simp add: choiceStep_def silentChoice_def)
qed

lemma choicesLoop_silent:
  "list_all silentChoice cs \<Longrightarrow> fst (choicesLoop rt pn mdl st cs) = []"
proof (induction cs arbitrary: st)
  case Nil
  then show ?case by simp
next
  case (Cons c cs)
  from Cons.prems have c: "silentChoice c" and cs: "list_all silentChoice cs" by simp_all
  from choiceStep_silent [OF c, of rt pn mdl st] show ?case
  proof
    assume "\<exists>e. choiceStep rt pn mdl st c = Inl e"
    then show ?thesis by auto
  next
    assume "\<exists>st'. choiceStep rt pn mdl st c = Inr ([], st')"
    then obtain st' where s: "choiceStep rt pn mdl st c = Inr ([], st')" by blast
    show ?thesis using s Cons.IH [OF cs, of st'] by (simp split: prod.splits)
  qed
qed

lemma chunkLoop_silent:
  assumes "\<forall>q \<in> set quiet. silentChunk rt q"
    and "rest = [] \<or> extractDataPayload (hd rest) = Some ''[DONE]''"
  shows "fst (chunkLoop rt pn mdl st (quiet @ rest)) = []"
  using assms(1)
proof (induction quiet arbitrary: st)
  case Nil
  show ?case using assms(2) by (cases rest) auto
next
  case (Cons q quiet)
  have ih: "\<And>st'. fst (chunkLoop rt pn mdl st' (quiet @ rest)) = []"
    using Cons.IH Cons.prems by simp
  have q: "silentChunk rt q" using Cons.prems by simp
  show ?case
  proof (cases "extractDataPayload q")
    case None
    then show ?thesis using ih by simp
  next
    case (Some data)
    show ?thesis
    proof (cases "data = [] \<or> data = ''[DONE]''")
      case True
      then show ?thesis using Some ih by auto
    next
      case False
      show ?thesis
      proof (cases "JSON_parse rt data")
        case (Inl e)
        then show ?thesis using Some False by simp
      next
        case (Inr parsed)
        have sc: "list_all silentChoice (choicesOf parsed)"
          using q Some False Inr by (simp add: silentChunk_def)
        show ?thesis
        proof (cases "parsed = JNull")
          case True
          then show ?thesis using Some False Inr by simp
        next
          case nn: False
          obtain evs r where c: "choicesLoop rt pn mdl (headerStep st parsed) (choicesOf parsed) = (evs, r)"
            by (cases "choicesLoop rt pn mdl (headerStep st parsed) (choicesOf parsed)")
          have e: "evs = []"
            using choicesLoop_silent [OF sc, of rt pn mdl "headerStep st parsed"] c by simp
          show ?thesis
          proof (cases r)
            case (Inl err)
            then show ?thesis using Some False Inr nn c e by simp
          next
            case st': (Inr st')
            obtain evs' ex where k: "chunkLoop rt pn mdl st' (quiet @ rest) = (evs', ex)"
              by (cases "chunkLoop rt pn mdl st' (quiet @ rest)")
            have "evs' = []" using ih [of st'] k by simp
            then show ?thesis using Some False Inr nn c e st' k by simp
          qed
        qed
      qed
    qed
  qed
qed

lemma finishedWithStop_not_null: "finishedWithStop choice \<Longrightarrow> choice \<noteq> JNull"
  by (auto simp: finishedWithStop_def)

text \<open>
  Claim C7, as amended. Let the stream reach the terminal marker: the chunks before the
  marker's chunk are read to their end without an error and without the sentinel, none
  of them carries a choice with \<^verbatim>\<open>finish_reason\<close> \<^verbatim>\<open>stop\<close>, the marker's chunk has a data
  payload that parses to a value other than \<^verbatim>\<open>null\<close>, and the choices of that chunk
  before the marker are not \<^verbatim>\<open>null\<close> and do not have \<^verbatim>\<open>finish_reason\<close> \<^verbatim>\<open>stop\<close>. Let
  everything read after the marker be silent: the later choices of the marker's chunk,
  and every later chunk up to the sentinel or the end of the source (nothing is required
  of the chunks after the sentinel). A choice is silent when its \<^verbatim>\<open>delta\<close> has neither
  a non-empty string as \<^verbatim>\<open>role\<close> nor one as \<^verbatim>\<open>content\<close> and its \<^verbatim>\<open>finish_reason\<close> is not
  \<^verbatim>\<open>stop\<close>; a chunk is silent when it has no data payload, an empty one, the sentinel or
  one that does not parse, or when all its choices are silent, as in a chunk that only
  reports usage. Then the events yielded contain exactly one completion event and it is
  the last event, whether the stream then ends normally or with an error.
\<close>

theorem completion_last_when_rest_silent:
  assumes pre: "chunkLoop rt providerName mdl initialState pre = (es, Exhausted st)"
    and nostop: "\<forall>chunk \<in> set pre. \<not> carriesStop rt chunk"
    and data: "extractDataPayload c = Some data" "data \<noteq> []" "data \<noteq> ''[DONE]''"
      "JSON_parse rt data = Inr parsed" "parsed \<noteq> JNull"
    and choices: "choicesOf parsed = cs @ final # cs'"
    and before: "\<forall>x \<in> set cs. x \<noteq> JNull \<and> \<not> finishedWithStop x"
    and final: "finishedWithStop final"
    and after: "list_all silentChoice cs'"
    and post: "post = quiet @ rest" "\<forall>q \<in> set quiet. silentChunk rt q"
      "rest = [] \<or> extractDataPayload (hd rest) = Some ''[DONE]''"
  shows "\<exists>ds comp err.
           mapChatCompletionsStream rt (pre @ c # post) providerName mdl = (ds @ [comp], err)
           \<and> isCompletion comp \<and> filter isCompletion ds = []"
proof -
  have es: "\<forall>ev \<in> set es. type ev = Delta"
    using chunkLoop_no_stop [OF nostop, of providerName mdl initialState] pre by simp
  have nn: "JNull \<notin> set cs" using before by auto
  have ns: "\<forall>x \<in> set cs. \<not> finishedWithStop x" using before by auto
  obtain es1 st1 where l1: "choicesLoop rt providerName mdl (headerStep st parsed) cs = (es1, Inr st1)"
    using choicesLoop_not_null [OF nn, of rt providerName mdl "headerStep st parsed"] by auto
  have es1: "\<forall>ev \<in> set es1. type ev = Delta"
    using choicesLoop_no_stop [OF ns, of rt providerName mdl "headerStep st parsed"] l1 by simp
  obtain ds2 st2 where
    l2: "choiceStep rt providerName mdl st1 final = Inr (ds2 @ [completionEvent rt providerName mdl st2], st2)"
    and ds2: "\<forall>d \<in> set ds2. type d = Delta"
    using choiceStep_stop [OF finishedWithStop_not_null [OF final] final, of rt providerName mdl st1] by auto
  obtain r where l3: "choicesLoop rt providerName mdl st2 cs' = ([], r)"
    using choicesLoop_silent [OF after, of rt providerName mdl st2]
    by (cases "choicesLoop rt providerName mdl st2 cs'") auto
  have cl: "choicesLoop rt providerName mdl (headerStep st parsed) (choicesOf parsed)
              = (es1 @ ds2 @ [completionEvent rt providerName mdl st2], r)"
    using l1 l2 l3 by (simp add: choices choicesLoop_append)
  have "\<exists>ex. chunkLoop rt providerName mdl st (c # post)
                = (es1 @ ds2 @ [completionEvent rt providerName mdl st2], ex)"
  proof (cases r)
    case (Inl e)
    then show ?thesis using cl data by simp
  next
    case (Inr st3)
    obtain evs ex where p: "chunkLoop rt providerName mdl st3 post = (evs, ex)"
      by (cases "chunkLoop rt providerName mdl st3 post")
    have "evs = []"
      using chunkLoop_silent [OF post(2) post(3), of providerName mdl st3] p post(1) by simp
    then show ?thesis using cl data Inr p by simp
  qed
  then obtain ex where step: "chunkLoop rt providerName mdl st (c # post)
                = (es1 @ ds2 @ [completionEvent rt providerName mdl st2], ex)" by blast
  have whole: "chunkLoop rt providerName mdl initialState (pre @ c # post)
                = (es @ es1 @ ds2 @ [completionEvent rt providerName mdl st2], ex)"
    using chunkLoop_append [OF pre, of "c # post"] step by simp
  have "\<exists>err. mapChatCompletionsStream rt (pre @ c # post) providerName mdl
          = ((es @ es1 @ ds2) @ [completionEvent rt providerName mdl st2], err)"
    using whole by (cases ex) (simp_all add: mapChatCompletionsStream_def)
  moreover have "isCompletion (completionEvent rt providerName mdl st2)"
    by (simp add: isCompletion_def completionEvent_def)
  moreover have "filter isCompletion (es @ es1 @ ds2) = []"
    using es es1 ds2 by (auto simp: filter_empty_conv isCompletion_def)
  ultimately show ?thesis by blast
qed

theorem completion_last_when_rest_silent_witness:
  "\<exists>ds comp err.
     mapChatCompletionsStream sampleRuntime
         ([chunkHel, chunkLo] @ chunkStop # [chunkUsageOnly, chunkDone, chunkLo]) ''openai'' None
       = (ds @ [comp], err)
     \<and> isCompletion comp \<and> filter isCompletion ds = []"
proof -
  have pre: "chunkLoop sampleRuntime ''openai'' None initialState [chunkHel, chunkLo]
     = ([\<lparr>type = Delta, delta = Some \<lparr>d_role = Some ''assistant'', d_content = Some ''Hel''\<rparr>,
          ev_payload = None, ev_traceId = None\<rparr>,
         \<lparr>type = Delta, delta = Some \<lparr>d_role = None, d_content = Some ''lo''\<rparr>,
          ev_payload = None, ev_traceId = None\<rparr>],
        Exhausted \<lparr>accumulatedContent = ''Hello'', cur_role = Some ''assistant'', cur_traceId = None,
                   usageRaw = None\<rparr>)"
    by (simp add: initialState_def sample_facts)
       (simp add: jsonHel_def jsonLo_def stream_step_defs)
  have nostop: "\<forall>chunk \<in> set [chunkHel, chunkLo]. \<not> carriesStop sampleRuntime chunk"
    by (simp add: carriesStop_def sample_facts)
       (simp add: jsonHel_def jsonLo_def choicesOf_def finishedWithStop_def)
  have ch: "choicesOf jsonStop = [] @ JObject [(''finish_reason'', JString ''stop'')] # []"
    by (simp add: jsonStop_def choicesOf_def)
  have quiet: "\<forall>q \<in> set [chunkUsageOnly]. silentChunk sampleRuntime q"
    by (simp add: silentChunk_def sample_facts) (simp add: jsonUsageOnly_def choicesOf_def)
  have post: "[chunkUsageOnly, chunkDone, chunkLo] = [chunkUsageOnly] @ [chunkDone, chunkLo]"
    by simp
  show ?thesis
    by (rule completion_last_when_rest_silent [OF pre nostop extract_chunkStop _ _ parse_samples(3)
          sample_not_null(3) ch _ _ _ post quiet])
       (simp_all add: finishedWithStop_def extract_chunkDone)
qed

text \<open>
  In that stream the completion event comes before the chunk with the usage figures and
  is the last of the three events; the chunk after the sentinel is not read.
\<close>

lemma usage_after_stop_evaluated:
  "map type (fst (mapChatCompletionsStream sampleRuntime
       [chunkHel, chunkLo, chunkStop, chunkUsageOnly, chunkDone, chunkLo] ''openai'' None))
     = [Delta, Delta, Completion]"
  by (simp add: mapChatCompletionsStream_def initialState_def sample_facts)
     (simp add: jsonHel_def jsonLo_def jsonStop_def jsonUsageOnly_def stream_step_defs)

section \<open>Usage normalization\<close>

lemma trim_empty_iff: "trim str = [] \<longleftrightarrow> list_all isWhiteSpace str"
proof -
  have a: "(\<forall>c \<in> set (dropWhile isWhiteSpace str). isWhiteSpace c) \<longleftrightarrow> dropWhile isWhiteSpace str = []"
  proof
    assume all: "\<forall>c \<in> set (dropWhile isWhiteSpace str). isWhiteSpace c"
    show "dropWhile isWhiteSpace str = []"
    proof (rule ccontr)
      assume ne: "dropWhile isWhiteSpace str \<noteq> []"
      then have "\<not> isWhiteSpace (hd (dropWhile isWhiteSpace str))" by (rule hd_dropWhile)
      moreover have "hd (dropWhile isWhiteSpace str) \<in> set (dropWhile isWhiteSpace str)"
        using ne by simp
      ultimately show False using all by blast
    qed
  next
    assume e: "dropWhile isWhiteSpace str = []"
    show "\<forall>c \<in> set (dropWhile isWhiteSpace str). isWhiteSpace c"
      unfolding e by simp
  qed
  have "trim str = [] \<longleftrightarrow> (\<forall>c \<in> set (dropWhile isWhiteSpace str). isWhiteSpace c)"
    by (simp add: trim_def dropWhile_eq_Nil_conv)
  also have "\<dots> \<longleftrightarrow> dropWhile isWhiteSpace str = []" by (rule a)
  also have "\<dots> \<longleftrightarrow> list_all isWhiteSpace str"
    by (simp add: dropWhile_eq_Nil_conv list_all_iff)
  finally show ?thesis .
qed

lemma toNumber_spec_numeric: "toNumber rt v = spec_numeric rt v"
proof (cases v)
  case None
  then show ?thesis by (simp add: toNumber_def spec_numeric_def)
next
  case (Some j)
  show ?thesis
  proof (cases j)
    case (JNumber n)
    then show ?thesis using Some by (cases n) (simp_all add: toNumber_def spec_numeric_def)
  next
    case (JString str)
    show ?thesis
    proof (cases "Number_of_string rt str")
      case (Finite x)
      then show ?thesis
        using Some JString by (simp add: toNumber_def spec_numeric_def trim_empty_iff [symmetric])
    qed (use Some JString in \<open>simp_all add: toNumber_def spec_numeric_def trim_empty_iff [symmetric]\<close>)
  qed (use Some in \<open>simp_all add: toNumber_def spec_numeric_def\<close>)
qed

lemma Math_round_of_nat: "Math_round (of_nat n) = of_nat n"
proof -
  have "\<lfloor>(of_nat n :: rat) + 1 / 2\<rfloor> = int n"
    by (rule floor_unique) simp_all
  then show ?thesis by (simp add: Math_round_def)
qed

lemma clampNonNegative_spec_reported: "clampNonNegative (Finite x) = spec_reported x"
  by (simp add: clampNonNegative_def spec_reported_def Math_round_def round_def)

lemma clampNonNegative_not_finite: "\<not> Number_isFinite v \<Longrightarrow> clampNonNegative v = 0"
  by (simp add: clampNonNegative_def)

lemma spec_reported_of_nat: "spec_reported (of_nat n) = of_nat n"
  by (cases "n = 0") (simp_all add: spec_reported_def)

lemma usageInput_spec_read:
  "usageInput rt (JObject props) = spec_read rt props ''prompt_tokens'' ''input_tokens''"
  by (simp add: usageInput_def spec_read_def toNumber_spec_numeric cong: option.case_cong)

lemma usageOutput_spec_read:
  "usageOutput rt (JObject props) = spec_read rt props ''completion_tokens'' ''output_tokens''"
  by (simp add: usageOutput_def spec_read_def toNumber_spec_numeric cong: option.case_cong)

lemma normalizeChatUsage_object:
  "normalizeChatUsage rt (Some (JObject props)) =
     \<lparr>inputTokens = spec_reported (spec_read rt props ''prompt_tokens'' ''input_tokens''),
      outputTokens = spec_reported (spec_read rt props ''completion_tokens'' ''output_tokens''),
      totalTokens =
        Some (case spec_numeric rt (map_of props ''total_tokens'') of
                Some x \<Rightarrow> spec_reported x
              | None \<Rightarrow>
                  (case Number_add rt (spec_read rt props ''prompt_tokens'' ''input_tokens'')
                          (spec_read rt props ''completion_tokens'' ''output_tokens'') of
                     Finite s \<Rightarrow> spec_reported s
                   | _ \<Rightarrow> 0))\<rparr>"
proof -
  have t: "usageTotal rt (JObject props) = spec_numeric rt (map_of props ''total_tokens'')"
    by (simp add: usageTotal_def toNumber_spec_numeric)
  have c: "\<And>v. clampNonNegative v = (case v of Finite s \<Rightarrow> spec_reported s | _ \<Rightarrow> 0)"
    by (simp add: clampNonNegative_spec_reported clampNonNegative_not_finite split: number.splits)
  show ?thesis
    by (simp add: normalizeChatUsage_def usageBase_def usageInput_spec_read usageOutput_spec_read t
          clampNonNegative_spec_reported c Let_def split: option.splits)
qed

text \<open>
  Claim C8, as amended. For every raw usage object and every runtime, with the input
  count read from \<^verbatim>\<open>prompt_tokens\<close>, else from \<^verbatim>\<open>input_tokens\<close>, and the output count
  from \<^verbatim>\<open>completion_tokens\<close>, else from \<^verbatim>\<open>output_tokens\<close>, a count that is missing or
  non-numeric under both names being 0: the reported input and output counts are the
  counts read, clamped at 0 and rounded to the nearest integer, so a negative or
  non-numeric count is reported as 0. A numeric total supplied by upstream is reported
  clamped at 0 and rounded to the nearest integer, so a total that is a non-negative
  integer is preserved verbatim, whatever the input and output counts are. When upstream
  supplies no numeric total, \<^verbatim>\<open>totalTokens\<close> is always present: it is the sum of the two
  counts read, as doubles add, clamped at 0 and rounded to the nearest integer, and 0
  when that sum is not finite.
\<close>

theorem normalizeChatUsage_amended:
  fixes rt :: Runtime and props :: "(string \<times> json) list"
  defines "u \<equiv> normalizeChatUsage rt (Some (JObject props))"
    and "inp \<equiv> spec_read rt props ''prompt_tokens'' ''input_tokens''"
    and "out \<equiv> spec_read rt props ''completion_tokens'' ''output_tokens''"
    and "tot \<equiv> spec_numeric rt (map_of props ''total_tokens'')"
  shows
    "inputTokens u = (if inp \<le> 0 then 0 else of_int (round inp))
     \<and> outputTokens u = (if out \<le> 0 then 0 else of_int (round out))
     \<and> (\<forall>x. map_of props ''prompt_tokens'' = Some (JNumber (Finite x)) \<longrightarrow> inp = x)
     \<and> (\<forall>y. spec_numeric rt (map_of props ''prompt_tokens'') = None
             \<and> map_of props ''input_tokens'' = Some (JNumber (Finite y)) \<longrightarrow> inp = y)
     \<and> (spec_numeric rt (map_of props ''prompt_tokens'') = None
          \<and> spec_numeric rt (map_of props ''input_tokens'') = None \<longrightarrow> inputTokens u = 0)
     \<and> (\<forall>x. map_of props ''completion_tokens'' = Some (JNumber (Finite x)) \<longrightarrow> out = x)
     \<and> (\<forall>y. spec_numeric rt (map_of props ''completion_tokens'') = None
             \<and> map_of props ''output_tokens'' = Some (JNumber (Finite y)) \<longrightarrow> out = y)
     \<and> (spec_numeric rt (map_of props ''completion_tokens'') = None
          \<and> spec_numeric rt (map_of props ''output_tokens'') = None \<longrightarrow> outputTokens u = 0)
     \<and> (\<forall>x. tot = Some x \<longrightarrow> totalTokens u = Some (if x \<le> 0 then 0 else of_int (round x)))
     \<and> (\<forall>n. map_of props ''total_tokens'' = Some (JNumber (Finite (of_nat n)))
             \<longrightarrow> totalTokens u = Some (of_nat n))
     \<and> (tot = None \<longrightarrow>
          totalTokens u = Some (case Number_add rt inp out of
                                  Finite s \<Rightarrow> if s \<le> 0 then 0 else of_int (round s)
                                | _ \<Rightarrow> 0))"
  unfolding u_def inp_def out_def tot_def normalizeChatUsage_object
  by (auto simp: spec_reported_def spec_read_def spec_numeric_def split: number.splits)

theorem normalizeChatUsage_amended_witness:
  "inputTokens (normalizeChatUsage plainRuntime (Some (JObject usageDisagreeing))) = 0
   \<and> outputTokens (normalizeChatUsage plainRuntime (Some (JObject usageDisagreeing))) = 3
   \<and> totalTokens (normalizeChatUsage plainRuntime (Some (JObject usageDisagreeing))) = Some 20
   \<and> totalTokens (normalizeChatUsage plainRuntime (Some (JObject usageNoTotal))) = Some 5"
proof -
  have r: "round (5 / 2 :: rat) = 3"
    by (simp add: round_def)
  have a: "spec_read plainRuntime usageDisagreeing ''prompt_tokens'' ''input_tokens'' = -3"
    by (simp add: spec_read_def spec_numeric_def usageDisagreeing_def)
  have b: "spec_read plainRuntime usageDisagreeing ''completion_tokens'' ''output_tokens'' = 5 / 2"
    by (simp add: spec_read_def spec_numeric_def usageDisagreeing_def plainRuntime_def isWhiteSpace_def)
  have c: "map_of usageDisagreeing ''total_tokens'' = Some (JNumber (Finite (of_nat 20)))"
    by (simp add: usageDisagreeing_def)
  have d: "spec_numeric plainRuntime (map_of usageNoTotal ''total_tokens'') = None"
    by (simp add: spec_numeric_def usageNoTotal_def)
  have e: "spec_read plainRuntime usageNoTotal ''prompt_tokens'' ''input_tokens'' = 5"
    "spec_read plainRuntime usageNoTotal ''completion_tokens'' ''output_tokens'' = 0"
    by (simp_all add: spec_read_def spec_numeric_def usageNoTotal_def)
  have f: "Number_add plainRuntime 5 0 = Finite 5"
    by (simp add: plainRuntime_def)
  show ?thesis
    using normalizeChatUsage_amended [of plainRuntime usageDisagreeing]
      normalizeChatUsage_amended [of plainRuntime usageNoTotal] c
    by (simp add: a b d e f r)
qed

text \<open>
  Claim C8 as stated fails. Without any count, and with an input count only,
  \<^verbatim>\<open>totalTokens\<close> is present (0, and the input count), not omitted; a negative total
  supplied by upstream is reported as 0, not verbatim.
\<close>

theorem normalizeChatUsage_total_not_omitted:
  "normalizeChatUsage plainRuntime (Some (JObject []))
     = \<lparr>inputTokens = 0, outputTokens = 0, totalTokens = Some 0\<rparr>
   \<and> normalizeChatUsage plainRuntime (Some (JObject usageNoTotal))
     = \<lparr>inputTokens = 5, outputTokens = 0, totalTokens = Some 5\<rparr>
   \<and> normalizeChatUsage plainRuntime (Some (JObject usageNegativeTotal))
     = \<lparr>inputTokens = 3, outputTokens = 4, totalTokens = Some 0\<rparr>"
proof -
  have r: "Math_round 5 = 5" "Math_round 3 = 3" "Math_round 4 = 4"
    using Math_round_of_nat [of 5] Math_round_of_nat [of 3] Math_round_of_nat [of 4] by simp_all
  show ?thesis
    by (simp add: usageNoTotal_def usageNegativeTotal_def normalizeChatUsage_def usageBase_def
          usageInput_def usageOutput_def usageTotal_def toNumber_def clampNonNegative_def
          plainRuntime_def r)
qed

end
